theory Spec2Isabelle
  imports Complex_Main
begin

section \<open>Python values, exceptions and outcomes\<close>

text \<open>
  The widgets of \<^verbatim>\<open>chichitk\<close> are Python objects whose methods mutate the object.
  A method is modelled as a function from the object's state to an outcome: the state
  the object is left in, and the exception raised, if any. A raise keeps the mutations
  made before it, as in Python.
\<close>

datatype exn = IndexError | ValueError | AttributeError | FileDataError | OverflowError

type_synonym 's outcome = "'s \<times> exn option"

definition returns :: "'s \<Rightarrow> 's outcome" where
  "returns s = (s, None)"

definition raises :: "exn \<Rightarrow> 's \<Rightarrow> 's outcome" where
  "raises e s = (s, Some e)"

definition and_then :: "'s outcome \<Rightarrow> ('s \<Rightarrow> 's outcome) \<Rightarrow> 's outcome" where
  "and_then r f = (case r of (s, None) \<Rightarrow> f s | (s, Some e) \<Rightarrow> (s, Some e))"

text \<open>Truthiness of a value that is \<^verbatim>\<open>None\<close> or a string: \<^verbatim>\<open>x if x else y\<close>.\<close>

definition truthy :: "string option \<Rightarrow> bool" where
  "truthy x = (case x of None \<Rightarrow> False | Some s \<Rightarrow> s \<noteq> [])"

definition if_else :: "string option \<Rightarrow> string \<Rightarrow> string" where
  "if_else x y = (if truthy x then the x else y)"

text \<open>
  Indexing a list with a bool: \<^verbatim>\<open>False\<close> is index 0 and \<^verbatim>\<open>True\<close> is index 1;
  \<^verbatim>\<open>None\<close> stands for the IndexError of an index out of range.
\<close>

definition bool_index :: "bool \<Rightarrow> nat" where
  "bool_index b = (if b then 1 else 0)"

definition getitem :: "'a list \<Rightarrow> bool \<Rightarrow> 'a option" where
  "getitem xs b = (if bool_index b < length xs then Some (xs ! bool_index b) else None)"

definition getitem2 :: "'a list list \<Rightarrow> bool \<Rightarrow> bool \<Rightarrow> 'a option" where
  "getitem2 t s h = (case getitem t s of None \<Rightarrow> None | Some row \<Rightarrow> getitem row h)"

definition setitem2 :: "'a list list \<Rightarrow> bool \<Rightarrow> bool \<Rightarrow> 'a \<Rightarrow> 'a list list option" where
  "setitem2 t s h v =
     (case getitem t s of
        None \<Rightarrow> None
      | Some row \<Rightarrow>
          if bool_index h < length row
          then Some (t[bool_index s := row[bool_index h := v]])
          else None)"

section \<open>Buttons (buttons.py)\<close>

subsection \<open>State of a button\<close>

type_synonym color = string

text \<open>
  An icon image is the base icon with white replaced by a foreground colour and black by
  a background colour (\<^verbatim>\<open>image_replace_colors\<close>); it is represented by that pair of
  colours. Reading the icon file and the pixel work of cv2 and numpy are outside the model.
\<close>

datatype image = PhotoImage (white_as: color) (black_as: color)

text \<open>What the tk widgets of a button were last configured to show.\<close>

record look =
  frame_bg :: color
  bar_bg :: color
  label_bg :: color
  label_fg :: color
  icon_image :: "image option"
  icon_bg :: "color option"
  icon_activebackground :: "color option"

text \<open>
  \<^verbatim>\<open>ToolTip\<close> lives in another module (\<^verbatim>\<open>tool_tip.py\<close>); a button only calls its
  \<^verbatim>\<open>fadein\<close> and \<^verbatim>\<open>fadeout\<close>, and the model records these calls.
\<close>

datatype tip_call = fadein "string option" | fadeout

text \<open>
  The callbacks given by the user are opaque functions. The model records each invocation,
  with its argument, in \<open>calls\<close>, and takes a callback to return normally without touching
  the button.
\<close>

datatype call = command | toggle_command_of bool

datatype func = UserFunction

datatype button_class = IconButton | LabelButton

record button =
  button_class :: button_class
  selected :: bool
  hovering :: bool
  active :: bool
  selectable :: bool
  select_on_click :: bool
  popup_labels :: "string option list"
  off_fg :: color
  bg_colors :: "color list list"
  fg_colors :: "color list list"
  bar_colors :: "color list list"
  images :: "image list list"
  off_icon :: "image option"
  toggle_command :: "func option"
  look :: "look option"
  tool_tip :: "tip_call list"
  calls :: "call list"

text \<open>The keyword arguments of \<^verbatim>\<open>BaseButton.__init__\<close> that reach the modelled state.\<close>

record kwargs =
  kw_popup_label :: "string option"
  kw_selectable :: bool
  kw_select_on_click :: bool
  kw_selected :: bool
  kw_active_bg :: color
  kw_inactive_bg :: color
  kw_active_hover_bg :: "color option"
  kw_inactive_hover_bg :: "color option"
  kw_active_fg :: color
  kw_inactive_fg :: color
  kw_active_hover_fg :: "color option"
  kw_inactive_hover_fg :: "color option"
  kw_active_bar_color :: "color option"
  kw_inactive_bar_color :: "color option"
  kw_active_hover_bar_color :: "color option"
  kw_inactive_hover_bar_color :: "color option"
  kw_off_fg :: color

definition default_kwargs :: kwargs where
  "default_kwargs =
     \<lparr> kw_popup_label = None, kw_selectable = True, kw_select_on_click = True,
       kw_selected = False,
       kw_active_bg = ''#070708'', kw_inactive_bg = ''#000000'',
       kw_active_hover_bg = None, kw_inactive_hover_bg = None,
       kw_active_fg = ''#13ce12'', kw_inactive_fg = ''#888888'',
       kw_active_hover_fg = Some ''#74d573'', kw_inactive_hover_fg = Some ''#74d573'',
       kw_active_bar_color = None, kw_inactive_bar_color = None,
       kw_active_hover_bar_color = None, kw_inactive_hover_bar_color = Some ''#dcdcdc'',
       kw_off_fg = ''#555555'' \<rparr>"

subsection \<open>BaseButton\<close>

definition BaseButton_init :: "button_class \<Rightarrow> kwargs \<Rightarrow> button" where
  "BaseButton_init cls kw =
     (let active_bar_color = if_else (kw_active_bar_color kw) (kw_active_fg kw);
          inactive_bar_color = if_else (kw_inactive_bar_color kw) (kw_inactive_bg kw)
      in \<lparr> button_class = cls,
           selected = kw_selected kw, hovering = False,
           active = True,
           selectable = kw_selectable kw, select_on_click = kw_select_on_click kw,
           popup_labels =
             [if truthy (kw_popup_label kw) then Some (the (kw_popup_label kw) @ '' : Inactive'')
              else None,
              kw_popup_label kw],
           off_fg = kw_off_fg kw,
           bg_colors =
             [[kw_inactive_bg kw, if_else (kw_inactive_hover_bg kw) (kw_inactive_bg kw)],
              [kw_active_bg kw, if_else (kw_active_hover_bg kw) (kw_active_bg kw)]],
           fg_colors =
             [[kw_inactive_fg kw, if_else (kw_inactive_hover_fg kw) (kw_inactive_fg kw)],
              [kw_active_fg kw, if_else (kw_active_hover_fg kw) (kw_active_fg kw)]],
           bar_colors =
             [[inactive_bar_color,
               if_else (kw_inactive_hover_bar_color kw) inactive_bar_color],
              [active_bar_color,
               if_else (kw_active_hover_bar_color kw) active_bar_color]],
           images = [], off_icon = None, toggle_command = None,
           look = None, tool_tip = [], calls = [] \<rparr>)"

text \<open>
  \<^verbatim>\<open>config_colors\<close> of \<^verbatim>\<open>IconButton\<close> and of \<^verbatim>\<open>LabelButton\<close>: the colours are read
  from the tables at \<^verbatim>\<open>[self.selected][self.hovering]\<close> when the button is active, and
  are the fixed inactive colours otherwise. Only an IconButton has an icon to configure.
\<close>

definition config_colors :: "button \<Rightarrow> button outcome" where
  "config_colors b =
     (case button_class b of
        IconButton \<Rightarrow>
          (if active b then
             (case (getitem2 (bg_colors b) (selected b) (hovering b),
                    getitem2 (fg_colors b) (selected b) (hovering b),
                    getitem2 (bar_colors b) (selected b) (hovering b),
                    getitem2 (images b) (selected b) (hovering b)) of
                (Some bg, Some fg, Some bar_color, Some img) \<Rightarrow>
                  returns (b\<lparr>look := Some \<lparr> frame_bg = bg, bar_bg = bar_color, label_bg = bg,
                     label_fg = fg, icon_image = Some img, icon_bg = Some bg,
                     icon_activebackground = Some bg \<rparr>\<rparr>)
              | _ \<Rightarrow> raises IndexError b)
           else
             (case getitem2 (bg_colors b) False False of
                Some bg \<Rightarrow>
                  returns (b\<lparr>look := Some \<lparr> frame_bg = bg, bar_bg = bg, label_bg = bg,
                     label_fg = off_fg b, icon_image = off_icon b, icon_bg = Some bg,
                     icon_activebackground = Some bg \<rparr>\<rparr>)
              | None \<Rightarrow> raises IndexError b))
      | LabelButton \<Rightarrow>
          (if active b then
             (case (getitem2 (bg_colors b) (selected b) (hovering b),
                    getitem2 (fg_colors b) (selected b) (hovering b),
                    getitem2 (bar_colors b) (selected b) (hovering b)) of
                (Some bg, Some fg, Some bar_color) \<Rightarrow>
                  returns (b\<lparr>look := Some \<lparr> frame_bg = bg, bar_bg = bar_color, label_bg = bg,
                     label_fg = fg, icon_image = None, icon_bg = None,
                     icon_activebackground = None \<rparr>\<rparr>)
              | _ \<Rightarrow> raises IndexError b)
           else
             (case getitem2 (bg_colors b) False False of
                Some bg \<Rightarrow>
                  returns (b\<lparr>look := Some \<lparr> frame_bg = bg, bar_bg = bg, label_bg = bg,
                     label_fg = off_fg b, icon_image = None, icon_bg = None,
                     icon_activebackground = None \<rparr>\<rparr>)
              | None \<Rightarrow> raises IndexError b)))"

definition turn_on :: "button \<Rightarrow> button outcome" where
  "turn_on b = config_colors (b\<lparr>active := True\<rparr>)"

definition turn_off :: "button \<Rightarrow> button outcome" where
  "turn_off b = config_colors (b\<lparr>active := False\<rparr>)"

text \<open>
  \<^verbatim>\<open>hover_enter\<close> and \<^verbatim>\<open>hover_leave\<close> are bound to the pointer's \<^verbatim>\<open><Enter>\<close> and
  \<^verbatim>\<open><Leave>\<close> events. The tool tip is shown when \<^verbatim>\<open>self.popup_labels[0]\<close> is truthy,
  with the text \<^verbatim>\<open>self.popup_labels[self.active]\<close>.
\<close>

definition show_tool_tip :: "button \<Rightarrow> button outcome" where
  "show_tool_tip b =
     (case getitem (popup_labels b) False of
        None \<Rightarrow> raises IndexError b
      | Some l \<Rightarrow>
          if truthy l then
            (case getitem (popup_labels b) (active b) of
               None \<Rightarrow> raises IndexError b
             | Some text \<Rightarrow> returns (b\<lparr>tool_tip := tool_tip b @ [fadein text]\<rparr>))
          else returns b)"

definition hide_tool_tip :: "button \<Rightarrow> button outcome" where
  "hide_tool_tip b =
     (case getitem (popup_labels b) False of
        None \<Rightarrow> raises IndexError b
      | Some l \<Rightarrow>
          if truthy l then returns (b\<lparr>tool_tip := tool_tip b @ [fadeout]\<rparr>)
          else returns b)"

definition hover_enter :: "button \<Rightarrow> button outcome" where
  "hover_enter b =
     (if \<not> hovering b then
        and_then (show_tool_tip (b\<lparr>hovering := True\<rparr>))
          (\<lambda>b. if active b then config_colors b else returns b)
      else returns b)"

definition hover_leave :: "button \<Rightarrow> button outcome" where
  "hover_leave b =
     (if hovering b then
        and_then (hide_tool_tip (b\<lparr>hovering := False\<rparr>))
          (\<lambda>b. if active b then config_colors b else returns b)
      else returns b)"

definition select :: "button \<Rightarrow> button outcome" where
  "select b =
     (if selectable b \<and> \<not> selected b then config_colors (b\<lparr>selected := True\<rparr>)
      else returns b)"

definition deselect :: "button \<Rightarrow> button outcome" where
  "deselect b =
     (if selected b then config_colors (b\<lparr>selected := False\<rparr>)
      else returns b)"

text \<open>
  \<^verbatim>\<open>click_button\<close> calls \<^verbatim>\<open>self.click_command\<close>, which is the user's function for an
  IconButton or a LabelButton and the method \<^verbatim>\<open>click\<close> for the toggle buttons; the
  command is the first argument here.
\<close>

definition click_button :: "(button \<Rightarrow> button outcome) \<Rightarrow> button \<Rightarrow> button outcome" where
  "click_button click_command b =
     (if active b then
        and_then (click_command b)
          (\<lambda>b. if select_on_click b then select b else returns b)
      else returns b)"

definition user_command :: "button \<Rightarrow> button outcome" where
  "user_command b = returns (b\<lparr>calls := calls b @ [command]\<rparr>)"

subsection \<open>Setting a single colour\<close>

definition assign_bg :: "bool \<Rightarrow> bool \<Rightarrow> color \<Rightarrow> button \<Rightarrow> button outcome" where
  "assign_bg s h c b =
     (case setitem2 (bg_colors b) s h c of
        None \<Rightarrow> raises IndexError b
      | Some t \<Rightarrow> returns (b\<lparr>bg_colors := t\<rparr>))"

definition assign_fg :: "bool \<Rightarrow> bool \<Rightarrow> color \<Rightarrow> button \<Rightarrow> button outcome" where
  "assign_fg s h c b =
     (case setitem2 (fg_colors b) s h c of
        None \<Rightarrow> raises IndexError b
      | Some t \<Rightarrow> returns (b\<lparr>fg_colors := t\<rparr>))"

definition assign_bar :: "bool \<Rightarrow> bool \<Rightarrow> color \<Rightarrow> button \<Rightarrow> button outcome" where
  "assign_bar s h c b =
     (case setitem2 (bar_colors b) s h c of
        None \<Rightarrow> raises IndexError b
      | Some t \<Rightarrow> returns (b\<lparr>bar_colors := t\<rparr>))"

definition assign_image :: "bool \<Rightarrow> bool \<Rightarrow> image \<Rightarrow> button \<Rightarrow> button outcome" where
  "assign_image s h i b =
     (case setitem2 (images b) s h i of
        None \<Rightarrow> raises IndexError b
      | Some t \<Rightarrow> returns (b\<lparr>images := t\<rparr>))"

text \<open>
  \<^verbatim>\<open>BaseButton.set_color\<close>, which a LabelButton inherits: the table is chosen by
  \<^verbatim>\<open>['bg', 'fg', 'bar'].index(which)\<close>, a ValueError for any other string.
\<close>

definition assign_which :: "string \<Rightarrow> bool \<Rightarrow> bool \<Rightarrow> color \<Rightarrow> button \<Rightarrow> button outcome" where
  "assign_which which s h c b =
     (if which = ''bg'' then assign_bg s h c b
      else if which = ''fg'' then assign_fg s h c b
      else if which = ''bar'' then assign_bar s h c b
      else raises ValueError b)"

definition BaseButton_set_color ::
  "color \<Rightarrow> string \<Rightarrow> bool \<Rightarrow> bool \<Rightarrow> bool \<Rightarrow> button \<Rightarrow> button outcome" where
  "BaseButton_set_color c which sel hover all b =
     and_then
       (if all then
          and_then (assign_which which True True c b) (\<lambda>b.
          and_then (assign_which which True False c b) (\<lambda>b.
          and_then (assign_which which False True c b) (\<lambda>b.
          assign_which which False False c b)))
        else assign_which which sel hover c b)
       config_colors"

text \<open>
  \<^verbatim>\<open>IconButton.set_color\<close> overrides it: the icon image of the entry is rebuilt for
  \<^verbatim>\<open>'bg'\<close> and \<^verbatim>\<open>'fg'\<close>, and any other value of \<^verbatim>\<open>which\<close> than the three changes
  no table.
\<close>

definition IconButton_set_color ::
  "color \<Rightarrow> string \<Rightarrow> bool \<Rightarrow> bool \<Rightarrow> button \<Rightarrow> button outcome" where
  "IconButton_set_color c which sel hover b =
     and_then
       (if which = ''bg'' then
          and_then (assign_bg sel hover c b) (\<lambda>b.
            case getitem2 (fg_colors b) sel hover of
              None \<Rightarrow> raises IndexError b
            | Some fg \<Rightarrow> assign_image sel hover (PhotoImage fg c) b)
        else if which = ''fg'' then
          and_then (assign_fg sel hover c b) (\<lambda>b.
            case getitem2 (bg_colors b) sel hover of
              None \<Rightarrow> raises IndexError b
            | Some bg \<Rightarrow> assign_image sel hover (PhotoImage c bg) b)
        else if which = ''bar'' then assign_bar sel hover c b
        else returns b)
       config_colors"

subsection \<open>IconButton, LabelButton and their toggle versions\<close>

text \<open>
  A constructor that raises leaves no object: its result is the exception or the
  constructed state.
\<close>

definition constructed :: "'s outcome \<Rightarrow> exn + 's" where
  "constructed r = (case r of (s, None) \<Rightarrow> Inr s | (s, Some e) \<Rightarrow> Inl e)"

definition IconButton_init :: "kwargs \<Rightarrow> exn + button" where
  "IconButton_init kw =
     (let b = BaseButton_init IconButton kw
      in constructed (config_colors
           (b\<lparr>images :=
                map (\<lambda>x. map (\<lambda>y. PhotoImage (fg_colors b ! x ! y) (bg_colors b ! x ! y)) [0, 1])
                  [0, 1],
              off_icon := Some (PhotoImage (off_fg b) (bg_colors b ! 0 ! 0))\<rparr>)))"

definition LabelButton_init :: "kwargs \<Rightarrow> exn + button" where
  "LabelButton_init kw = constructed (config_colors (BaseButton_init LabelButton kw))"

text \<open>
  The toggle versions pass \<^verbatim>\<open>self.click\<close> as the command and
  \<^verbatim>\<open>select_on_click=False\<close>; the user's command, which may be \<^verbatim>\<open>None\<close>, is kept in
  \<^verbatim>\<open>self.toggle_command\<close>.
\<close>

definition ToggleIconButton_init :: "func option \<Rightarrow> kwargs \<Rightarrow> exn + button" where
  "ToggleIconButton_init cmd kw =
     (case IconButton_init (kw\<lparr>kw_select_on_click := False\<rparr>) of
        Inl e \<Rightarrow> Inl e
      | Inr b \<Rightarrow> Inr (b\<lparr>toggle_command := cmd\<rparr>))"

definition ToggleLabelButton_init :: "func option \<Rightarrow> kwargs \<Rightarrow> exn + button" where
  "ToggleLabelButton_init cmd kw =
     (case LabelButton_init (kw\<lparr>kw_select_on_click := False\<rparr>) of
        Inl e \<Rightarrow> Inl e
      | Inr b \<Rightarrow> Inr (b\<lparr>toggle_command := cmd\<rparr>))"

definition click :: "button \<Rightarrow> button outcome" where
  "click b =
     and_then (config_colors (b\<lparr>selected := \<not> selected b\<rparr>))
       (\<lambda>b. if toggle_command b \<noteq> None
            then returns (b\<lparr>calls := calls b @ [toggle_command_of (selected b)]\<rparr>)
            else returns b)"

subsection \<open>DoubleIconButton and CheckButton\<close>

text \<open>
  A DoubleIconButton is a frame holding two IconButtons, of which one is packed. The
  model keeps, besides the fields of the object, whether each button is packed, and the
  sequence of the effects seen from outside: the geometry calls on the two buttons and the
  invocations of the two commands.
\<close>

datatype slot = Button1_slot | Button2_slot

datatype 'c event = pack slot | pack_forget slot | invoke 'c

record 'c double_icon_button =
  command1 :: 'c
  command2 :: 'c
  double_status :: bool
  Button1 :: button
  Button2 :: button
  Button1_packed :: bool
  Button2_packed :: bool
  events :: "'c event list"


definition switch1 :: "'c double_icon_button \<Rightarrow> 'c double_icon_button" where
  "switch1 d =
     d\<lparr>double_status := False,
       Button2_packed := False,
       Button1_packed := True,
       events := events d @ [pack_forget Button2_slot, pack Button1_slot]\<rparr>"

definition switch2 :: "'c double_icon_button \<Rightarrow> 'c double_icon_button" where
  "switch2 d =
     d\<lparr>double_status := True,
       Button1_packed := False,
       Button2_packed := True,
       events := events d @ [pack_forget Button1_slot, pack Button2_slot]\<rparr>"

definition call_command1 :: "'c double_icon_button \<Rightarrow> 'c double_icon_button" where
  "call_command1 d = d\<lparr>events := events d @ [invoke (command1 d)]\<rparr>"

definition call_command2 :: "'c double_icon_button \<Rightarrow> 'c double_icon_button" where
  "call_command2 d = d\<lparr>events := events d @ [invoke (command2 d)]\<rparr>"

definition click1 :: "'c double_icon_button \<Rightarrow> 'c double_icon_button" where
  "click1 d = call_command1 (switch2 d)"

definition click2 :: "'c double_icon_button \<Rightarrow> 'c double_icon_button" where
  "click2 d = call_command2 (switch1 d)"


text \<open>
  \<^verbatim>\<open>Button1.click_button\<close> and \<^verbatim>\<open>Button2.click_button\<close>: \<^verbatim>\<open>click_button\<close> of
  BaseButton on the inner button, whose command is the method \<^verbatim>\<open>click1\<close>
  (\<^verbatim>\<open>click2\<close>) of the enclosing DoubleIconButton.
\<close>

definition Button1_click_button :: "'c double_icon_button \<Rightarrow> 'c double_icon_button outcome" where
  "Button1_click_button d =
     (if active (Button1 d) then
        and_then (returns (click1 d))
          (\<lambda>d. if select_on_click (Button1 d)
               then (case select (Button1 d) of (b, r) \<Rightarrow> (d\<lparr>Button1 := b\<rparr>, r))
               else returns d)
      else returns d)"

definition Button2_click_button :: "'c double_icon_button \<Rightarrow> 'c double_icon_button outcome" where
  "Button2_click_button d =
     (if active (Button2 d) then
        and_then (returns (click2 d))
          (\<lambda>d. if select_on_click (Button2 d)
               then (case select (Button2 d) of (b, r) \<Rightarrow> (d\<lparr>Button2 := b\<rparr>, r))
               else returns d)
      else returns d)"



section \<open>PdfDisplay (pdf_display.py)\<close>

subsection \<open>Numbers\<close>

text \<open>
  The scale factor starts as the int \<^verbatim>\<open>1\<close> and becomes a float with the first zoom.
  Python's ints are exact. Its floats are IEEE doubles: their arithmetic is a parameter
  of the model (the fields \<open>float_...\<close> of the environment below), so that nothing is
  assumed of it that rounding would break.
\<close>

datatype 'f number = PyInt int | PyFloat 'f

subsection \<open>The environment: float arithmetic and the PDF library\<close>

text \<open>
  \<open>fitz_open\<close> is \<^verbatim>\<open>fitz.open\<close>: the pages of the file, or \<^verbatim>\<open>None\<close> when it raises.
  \<open>getImageData\<close> stands for the three library calls that turn a page into PPM data at
  a given dpi (\<^verbatim>\<open>page.getPixmap\<close>, \<^verbatim>\<open>fitz.Pixmap\<close>, \<^verbatim>\<open>getImageData\<close>), \<^verbatim>\<open>None\<close>
  when one of them raises. \<open>float_int\<close> is \<^verbatim>\<open>int(x)\<close> on a float, which raises on an
  infinity or a NaN.
\<close>

record ('p, 'f) env =
  float_of_int :: "int \<Rightarrow> 'f"
  float_of_literal :: "rat \<Rightarrow> 'f"
  float_mul :: "'f \<Rightarrow> 'f \<Rightarrow> 'f"
  float_div :: "'f \<Rightarrow> 'f \<Rightarrow> 'f"
  float_int :: "'f \<Rightarrow> int option"
  fitz_open :: "string \<Rightarrow> 'p list option"
  getImageData :: "'p \<Rightarrow> int \<Rightarrow> string option"

fun to_float :: "('p, 'f) env \<Rightarrow> 'f number \<Rightarrow> 'f" where
  "to_float env (PyInt i) = float_of_int env i"
| "to_float env (PyFloat x) = x"

text \<open>\<^verbatim>\<open>a * b\<close>: exact on two ints, float multiplication otherwise.\<close>

fun py_mul :: "('p, 'f) env \<Rightarrow> 'f number \<Rightarrow> 'f number \<Rightarrow> 'f number" where
  "py_mul env (PyInt i) (PyInt j) = PyInt (i * j)"
| "py_mul env a b = PyFloat (float_mul env (to_float env a) (to_float env b))"

text \<open>
  \<^verbatim>\<open>a / x\<close> for a float \<open>x\<close>. The only divisor in the source is the literal
  \<^verbatim>\<open>1.1\<close>, which is not zero, so that there is no ZeroDivisionError to model.
\<close>

definition py_truediv :: "('p, 'f) env \<Rightarrow> 'f number \<Rightarrow> 'f \<Rightarrow> 'f number" where
  "py_truediv env a x = PyFloat (float_div env (to_float env a) x)"

fun py_int :: "('p, 'f) env \<Rightarrow> 'f number \<Rightarrow> int option" where
  "py_int env (PyInt i) = Some i"
| "py_int env (PyFloat x) = float_int env x"

subsection \<open>State of a PdfDisplay\<close>

text \<open>
  Every \<^verbatim>\<open>PhotoImage(data=image)\<close> is a new object. An image object is its identity, the
  number of image objects created before it, and the data it was built from.
\<close>

record page_image =
  image_id :: nat
  image_data :: string

record frame =
  frame_height :: int
  frame_width :: int
  destroyed :: bool

datatype text_item = Text string | Image page_image

text \<open>
  A thread is its target. \<^verbatim>\<open>Thread.run\<close> calls the target unless it is \<^verbatim>\<open>None\<close>.
  The only callable of this module that is meant as a target is the bound method
  \<^verbatim>\<open>self.render_pdf\<close>.
\<close>

datatype callable = render_pdf_method

datatype thread = Thread (target: "callable option")

record 'f pdf_display =
  width :: "'f number"
  height :: "'f number"
  zoom_fact :: "'f number"
  scale_fact :: "'f number"
  img_object_list :: "page_image list"
  pdf_frame :: "frame option"
  pdf_text :: "text_item list"
  pdf_active :: bool
  filename :: "string option"
  label_packed :: bool
  buttons_placed :: bool
  started_threads :: "thread list"
  images_created :: nat

text \<open>
  \<^verbatim>\<open>PdfDisplay.__init__\<close>. The attribute \<^verbatim>\<open>filename\<close> does not exist before the
  first \<^verbatim>\<open>show_pdf\<close>: reading it raises AttributeError, which is \<open>filename = None\<close> here.
  \<open>pdf_active\<close> is \<^verbatim>\<open>self.active\<close>.
\<close>

definition PdfDisplay_init :: "'f number \<Rightarrow> 'f number \<Rightarrow> 'f number \<Rightarrow> 'f pdf_display" where
  "PdfDisplay_init view_width zoom height_arg =
     \<lparr> width = view_width, height = height_arg,
       zoom_fact = zoom,
       scale_fact = PyInt 1,
       img_object_list = [],
       pdf_frame = None,
       pdf_text = [],
       pdf_active = False,
       filename = None,
       label_packed = True,
       buttons_placed = False,
       started_threads = [],
       images_created = 0 \<rparr>"

definition position_buttons :: "'f pdf_display \<Rightarrow> 'f pdf_display" where
  "position_buttons s = (if pdf_active s then s\<lparr>buttons_placed := True\<rparr> else s)"

definition remove_all :: "'f pdf_display \<Rightarrow> 'f pdf_display" where
  "remove_all s =
     (let s = s\<lparr>pdf_active := False, label_packed := False, buttons_placed := False\<rparr>
      in case pdf_frame s of
           None \<Rightarrow> s
         | Some f \<Rightarrow> s\<lparr>pdf_frame := Some (f\<lparr>destroyed := True\<rparr>)\<rparr>)"

subsection \<open>Rendering\<close>

text \<open>The first loop of \<^verbatim>\<open>render_pdf\<close>: one new image object for each page, appended.\<close>

fun render_pages :: "('p, 'f) env \<Rightarrow> 'p list \<Rightarrow> 'f pdf_display \<Rightarrow> 'f pdf_display outcome" where
  "render_pages env [] s = returns s"
| "render_pages env (page # pages) s =
     (case py_int env (py_mul env (py_mul env (PyInt 72) (zoom_fact s)) (scale_fact s)) of
        None \<Rightarrow> raises OverflowError s
      | Some dpi \<Rightarrow>
          (case getImageData env page dpi of
             None \<Rightarrow> raises FileDataError s
           | Some data \<Rightarrow>
               render_pages env pages
                 (s\<lparr>img_object_list :=
                      img_object_list s @ [\<lparr>image_id = images_created s, image_data = data\<rparr>],
                    images_created := Suc (images_created s)\<rparr>)))"

text \<open>The last loop: the images go into the text box, two newlines before all but the first.\<close>

fun add_pages :: "nat \<Rightarrow> page_image list \<Rightarrow> text_item list \<Rightarrow> text_item list" where
  "add_pages i [] t = t"
| "add_pages i (img # imgs) t =
     add_pages (Suc i) imgs ((if i > 0 then t @ [Text [CHR 0x0A, CHR 0x0A]] else t) @ [Image img])"

definition new_pdf_frame :: "('p, 'f) env \<Rightarrow> 'f pdf_display \<Rightarrow> 'f pdf_display outcome" where
  "new_pdf_frame env s =
     (case py_int env (py_mul env (width s) (scale_fact s)) of
        None \<Rightarrow> raises OverflowError s
      | Some w \<Rightarrow>
          (case py_int env (py_mul env (height s) (scale_fact s)) of
             None \<Rightarrow> raises OverflowError s
           | Some h \<Rightarrow>
               returns (position_buttons
                 (s\<lparr>pdf_frame := Some \<lparr>frame_height = h, frame_width = w, destroyed = False\<rparr>,
                    pdf_text := []\<rparr>))))"

definition render_pdf :: "('p, 'f) env \<Rightarrow> 'f pdf_display \<Rightarrow> 'f pdf_display outcome" where
  "render_pdf env s =
     and_then (returns (s\<lparr>img_object_list := []\<rparr>)) (\<lambda>s.
       case filename s of
         None \<Rightarrow> raises AttributeError s
       | Some name \<Rightarrow>
           (case fitz_open env name of
              None \<Rightarrow> raises FileDataError s
            | Some pages \<Rightarrow>
                and_then (render_pages env pages s) (\<lambda>s.
                and_then (new_pdf_frame env s) (\<lambda>s.
                returns (s\<lparr>pdf_text := add_pages 0 (img_object_list s) (pdf_text s)\<rparr>)))))"

subsection \<open>Showing and zooming\<close>

text \<open>
  \<^verbatim>\<open>render_pdf\<close> has no return statement: a call of it returns \<^verbatim>\<open>None\<close>.
\<close>

definition render_pdf_returns :: "callable option" where
  "render_pdf_returns = None"

definition start :: "thread \<Rightarrow> 'f pdf_display \<Rightarrow> 'f pdf_display" where
  "start t s = s\<lparr>started_threads := started_threads s @ [t]\<rparr>"

definition run :: "('p, 'f) env \<Rightarrow> thread \<Rightarrow> 'f pdf_display \<Rightarrow> 'f pdf_display outcome" where
  "run env t s =
     (case target t of
        None \<Rightarrow> returns s
      | Some render_pdf_method \<Rightarrow> render_pdf env s)"

text \<open>
  The three methods end with \<^verbatim>\<open>Thread(target=self.render_pdf()).start()\<close>. The argument
  is a call: the caller runs \<^verbatim>\<open>render_pdf\<close> to its end, and the value it returns is
  the target of the thread that is then created and started.
\<close>

definition show_pdf :: "('p, 'f) env \<Rightarrow> string \<Rightarrow> 'f pdf_display \<Rightarrow> 'f pdf_display outcome" where
  "show_pdf env name s =
     and_then (returns (s\<lparr>scale_fact := PyInt 1, filename := Some name\<rparr>)) (\<lambda>s.
     and_then (returns ((remove_all s)\<lparr>pdf_active := True\<rparr>)) (\<lambda>s.
     and_then (render_pdf env s) (\<lambda>s.
     returns (start (Thread render_pdf_returns) s))))"

definition zoom_in :: "('p, 'f) env \<Rightarrow> 'f pdf_display \<Rightarrow> 'f pdf_display outcome" where
  "zoom_in env s =
     and_then (returns (s\<lparr>scale_fact :=
         py_mul env (scale_fact s) (PyFloat (float_of_literal env (11 / 10)))\<rparr>)) (\<lambda>s.
     and_then (returns ((remove_all s)\<lparr>pdf_active := True\<rparr>)) (\<lambda>s.
     and_then (render_pdf env s) (\<lambda>s.
     returns (start (Thread render_pdf_returns) s))))"

definition zoom_out :: "('p, 'f) env \<Rightarrow> 'f pdf_display \<Rightarrow> 'f pdf_display outcome" where
  "zoom_out env s =
     and_then (returns (s\<lparr>scale_fact :=
         py_truediv env (scale_fact s) (float_of_literal env (11 / 10))\<rparr>)) (\<lambda>s.
     and_then (returns ((remove_all s)\<lparr>pdf_active := True\<rparr>)) (\<lambda>s.
     and_then (render_pdf env s) (\<lambda>s.
     returns (start (Thread render_pdf_returns) s))))"

section \<open>Invariants and reachable states\<close>

text \<open>
  The colour tables of a button are well formed when each is a list of two rows of two
  entries; an IconButton also has such a table of images. The reachable states of a
  button are those a constructor returns and those a method leaves behind.
\<close>

definition shape2 :: "'a list list \<Rightarrow> bool" where
  "shape2 t = (map length t = [2, 2])"

definition well_formed :: "button \<Rightarrow> bool" where
  "well_formed b =
     (shape2 (bg_colors b) \<and> shape2 (fg_colors b) \<and> shape2 (bar_colors b) \<and>
      (button_class b = LabelButton \<or> shape2 (images b)))"

inductive reachable :: "button \<Rightarrow> bool" where
  IconButton_new: "IconButton_init kw = Inr b \<Longrightarrow> reachable b"
| LabelButton_new: "LabelButton_init kw = Inr b \<Longrightarrow> reachable b"
| ToggleIconButton_new: "ToggleIconButton_init cmd kw = Inr b \<Longrightarrow> reachable b"
| ToggleLabelButton_new: "ToggleLabelButton_init cmd kw = Inr b \<Longrightarrow> reachable b"
| after_config_colors: "reachable b \<Longrightarrow> reachable (fst (config_colors b))"
| after_turn_on: "reachable b \<Longrightarrow> reachable (fst (turn_on b))"
| after_turn_off: "reachable b \<Longrightarrow> reachable (fst (turn_off b))"
| after_hover_enter: "reachable b \<Longrightarrow> reachable (fst (hover_enter b))"
| after_hover_leave: "reachable b \<Longrightarrow> reachable (fst (hover_leave b))"
| after_select: "reachable b \<Longrightarrow> reachable (fst (select b))"
| after_deselect: "reachable b \<Longrightarrow> reachable (fst (deselect b))"
| after_click_button: "reachable b \<Longrightarrow> reachable (fst (click_button user_command b))"
| after_toggle_click_button: "reachable b \<Longrightarrow> reachable (fst (click_button click b))"
| after_BaseButton_set_color:
    "reachable b \<Longrightarrow> button_class b = LabelButton \<Longrightarrow>
     reachable (fst (BaseButton_set_color c which sel hover all b))"
| after_IconButton_set_color:
    "reachable b \<Longrightarrow> button_class b = IconButton \<Longrightarrow>
     reachable (fst (IconButton_set_color c which sel hover b))"

definition inactive_icon_button :: button where
  "inactive_icon_button = fst (turn_off (projr (IconButton_init default_kwargs)))"



text \<open>
  The image objects of a PdfDisplay are fresh when each was created before now: its
  identity is below the number of image objects created so far.
\<close>

definition ids_fresh :: "'f pdf_display \<Rightarrow> bool" where
  "ids_fresh s = (\<forall>i \<in> set (img_object_list s). image_id i < images_created s)"

text \<open>
  A display is renderable at a scale factor when its file opens, the dpi for that scale
  factor is an int, every page of the file renders at that dpi, and the frame has a width
  and a height.
\<close>

definition renderable ::
  "('p, 'f) env \<Rightarrow> 'f pdf_display \<Rightarrow> 'f number \<Rightarrow> 'p list \<Rightarrow> int \<Rightarrow> bool" where
  "renderable env s sc pages dpi =
     ((case filename s of None \<Rightarrow> False | Some name \<Rightarrow> fitz_open env name = Some pages) \<and>
      py_int env (py_mul env (py_mul env (PyInt 72) (zoom_fact s)) sc) = Some dpi \<and>
      list_all (\<lambda>p. getImageData env p dpi \<noteq> None) pages \<and>
      py_int env (py_mul env (width s) sc) \<noteq> None \<and>
      py_int env (py_mul env (height s) sc) \<noteq> None)"

text \<open>
  What a display shows after a render of \<open>pages\<close> at \<open>dpi\<close>: one image for each page
  with the data of that page at that dpi; a frame that is not destroyed, of the height
  and width that the scale factor of the display gives; a text box holding exactly these
  images, in order, as \<^verbatim>\<open>render_pdf\<close> inserts them; the buttons placed and the label
  gone. \<open>images_of\<close> reads the images back from a text box.
\<close>

fun images_of :: "text_item list \<Rightarrow> page_image list" where
  "images_of [] = []"
| "images_of (Image i # t) = i # images_of t"
| "images_of (Text x # t) = images_of t"

definition rendered :: "('p, 'f) env \<Rightarrow> 'f pdf_display \<Rightarrow> 'p list \<Rightarrow> int \<Rightarrow> bool" where
  "rendered env r pages dpi =
     (map image_data (img_object_list r) = map (\<lambda>p. the (getImageData env p dpi)) pages \<and>
      pdf_frame r =
        Some \<lparr>frame_height = the (py_int env (py_mul env (height r) (scale_fact r))),
              frame_width = the (py_int env (py_mul env (width r) (scale_fact r))),
              destroyed = False\<rparr> \<and>
      pdf_text r = add_pages 0 (img_object_list r) [] \<and>
      images_of (pdf_text r) = img_object_list r \<and>
      pdf_active r \<and> buttons_placed r \<and> \<not> label_packed r)"

text \<open>
  No frame of an earlier render is left on display by a call: a frame the display holds
  afterwards is destroyed exactly if the call raised.
\<close>

definition old_frame_gone :: "'f pdf_display outcome \<Rightarrow> bool" where
  "old_frame_gone out =
     (case pdf_frame (fst out) of
        None \<Rightarrow> True
      | Some f \<Rightarrow> destroyed f = (snd out \<noteq> None))"

section \<open>An environment and displays to evaluate the model on\<close>

text \<open>
  Exact rational arithmetic for the floats, a file \<^verbatim>\<open>a.pdf\<close> of two pages, and page
  data that names the page and the dpi. \<open>new_display\<close> is \<^verbatim>\<open>PdfDisplay(master, bg, fg)\<close>
  with the default width, zoom and height.
\<close>

definition example_env :: "(nat, rat) env" where
  "example_env =
     \<lparr> float_of_int = rat_of_int, float_of_literal = (\<lambda>q. q),
       float_mul = (\<lambda>x y. x * y), float_div = (\<lambda>x y. x / y),
       float_int = (\<lambda>x. Some (if 0 \<le> x then \<lfloor>x\<rfloor> else \<lceil>x\<rceil>)),
       fitz_open = (\<lambda>name. if name = ''a.pdf'' then Some [0, 1] else None),
       getImageData = (\<lambda>p dpi.
         if dpi \<le> 0 then None
         else Some ((if p = 0 then ''page 1'' else ''page 2'') @
                    (if dpi = 72 then '' at 72 dpi''
                     else if dpi = 79 then '' at 79 dpi''
                     else if dpi = 65 then '' at 65 dpi''
                     else '' at another dpi''))) \<rparr>"

definition new_display :: "rat pdf_display" where
  "new_display = PdfDisplay_init (PyInt 75) (PyInt 1) (PyInt 600)"

definition loaded_display :: "rat pdf_display" where
  "loaded_display = fst (show_pdf example_env ''a.pdf'' new_display)"

definition zoomed_display :: "rat pdf_display" where
  "zoomed_display = fst (zoom_in example_env loaded_display)"

section \<open>Properties of the buttons\<close>

subsection \<open>Outcomes and table shapes\<close>

lemma length2: "length xs = 2 \<Longrightarrow> \<exists>a b. xs = [a, b]"
  by (cases xs; cases "tl xs"; cases "tl (tl xs)") auto

lemma shape2_rows: "shape2 t \<Longrightarrow> \<exists>a b c d. t = [[a, b], [c, d]]"
proof -
  assume "shape2 t"
  then have m: "map length t = [2, 2]" by (simp add: shape2_def)
  then have "length t = 2" by (metis length_map length_Cons list.size(3) numeral_2_eq_2)
  then obtain r1 r2 where t: "t = [r1, r2]" using length2 by blast
  with m have "length r1 = 2" "length r2 = 2" by simp_all
  then obtain a b c d where "r1 = [a, b]" "r2 = [c, d]" using length2 by metis
  with t show ?thesis by blast
qed

lemma getitem2_rows:
  "getitem2 [[a, b], [c, d]] s h = Some (if s then (if h then d else c) else (if h then b else a))"
  by (simp add: getitem2_def getitem_def bool_index_def)

lemma setitem2_rows:
  "setitem2 [[a, b], [c, d]] s h v =
     Some (if s then (if h then [[a, b], [c, v]] else [[a, b], [v, d]])
           else (if h then [[a, v], [c, d]] else [[v, b], [c, d]]))"
  by (simp add: setitem2_def getitem_def bool_index_def)

lemma getitem2_shape2: "shape2 t \<Longrightarrow> \<exists>v. getitem2 t s h = Some v"
  by (drule shape2_rows) (auto simp: getitem2_rows)

lemma setitem2_shape2: "shape2 t \<Longrightarrow> \<exists>t'. setitem2 t s h v = Some t' \<and> shape2 t'"
  by (drule shape2_rows) (auto simp: setitem2_rows shape2_def)

lemma config_colors_wf:
  assumes "well_formed b"
  shows "\<exists>l. config_colors b = (b\<lparr>look := Some l\<rparr>, None)"
proof -
  from assms obtain bg fg bar where g:
    "getitem2 (bg_colors b) (selected b) (hovering b) = Some bg"
    "getitem2 (fg_colors b) (selected b) (hovering b) = Some fg"
    "getitem2 (bar_colors b) (selected b) (hovering b) = Some bar"
    unfolding well_formed_def using getitem2_shape2 by metis
  from assms obtain bg0 where g0: "getitem2 (bg_colors b) False False = Some bg0"
    unfolding well_formed_def using getitem2_shape2 by metis
  show ?thesis
  proof (cases "button_class b")
    case IconButton
    with assms obtain i where "getitem2 (images b) (selected b) (hovering b) = Some i"
      unfolding well_formed_def using getitem2_shape2 by fastforce
    with IconButton g g0 show ?thesis
      by (cases "active b") (simp_all add: config_colors_def returns_def raises_def, blast+)
  next
    case LabelButton
    with g g0 show ?thesis
      by (cases "active b") (simp_all add: config_colors_def returns_def raises_def, blast+)
  qed
qed

lemma config_colors_look:
  assumes wf: "well_formed b"
  shows "\<exists>l. config_colors b = (b\<lparr>look := Some l\<rparr>, None) \<and>
     frame_bg l = (if active b then the (getitem2 (bg_colors b) (selected b) (hovering b))
                   else the (getitem2 (bg_colors b) False False)) \<and>
     label_bg l = frame_bg l \<and>
     label_fg l = (if active b then the (getitem2 (fg_colors b) (selected b) (hovering b))
                   else off_fg b) \<and>
     bar_bg l = (if active b then the (getitem2 (bar_colors b) (selected b) (hovering b))
                 else the (getitem2 (bg_colors b) False False)) \<and>
     icon_image l = (if button_class b = LabelButton then None
                     else if active b then getitem2 (images b) (selected b) (hovering b)
                     else off_icon b) \<and>
     icon_bg l = (if button_class b = LabelButton then None else Some (frame_bg l)) \<and>
     icon_activebackground l = icon_bg l"
proof -
  from wf obtain bg fg bar where g:
    "getitem2 (bg_colors b) (selected b) (hovering b) = Some bg"
    "getitem2 (fg_colors b) (selected b) (hovering b) = Some fg"
    "getitem2 (bar_colors b) (selected b) (hovering b) = Some bar"
    unfolding well_formed_def using getitem2_shape2 by metis
  from wf obtain bg0 where g0: "getitem2 (bg_colors b) False False = Some bg0"
    unfolding well_formed_def using getitem2_shape2 by metis
  show ?thesis
  proof (cases "button_class b")
    case IconButton
    with wf obtain i where i: "getitem2 (images b) (selected b) (hovering b) = Some i"
      unfolding well_formed_def using getitem2_shape2 by fastforce
    show ?thesis
    proof (cases "active b")
      case True
      let ?l = "\<lparr>frame_bg = bg, bar_bg = bar, label_bg = bg, label_fg = fg,
        icon_image = Some i, icon_bg = Some bg, icon_activebackground = Some bg\<rparr>"
      have "config_colors b = (b\<lparr>look := Some ?l\<rparr>, None)"
        using IconButton True g i by (simp add: config_colors_def returns_def)
      then show ?thesis
        using IconButton True g i by (intro exI [of _ ?l]) simp
    next
      case False
      let ?l = "\<lparr>frame_bg = bg0, bar_bg = bg0, label_bg = bg0, label_fg = off_fg b,
        icon_image = off_icon b, icon_bg = Some bg0, icon_activebackground = Some bg0\<rparr>"
      have "config_colors b = (b\<lparr>look := Some ?l\<rparr>, None)"
        using IconButton False g0 by (simp add: config_colors_def returns_def)
      then show ?thesis
        using IconButton False g0 by (intro exI [of _ ?l]) simp
    qed
  next
    case LabelButton
    show ?thesis
    proof (cases "active b")
      case True
      let ?l = "\<lparr>frame_bg = bg, bar_bg = bar, label_bg = bg, label_fg = fg,
        icon_image = None, icon_bg = None, icon_activebackground = None\<rparr>"
      have "config_colors b = (b\<lparr>look := Some ?l\<rparr>, None)"
        using LabelButton True g by (simp add: config_colors_def returns_def)
      then show ?thesis
        using LabelButton True g by (intro exI [of _ ?l]) simp
    next
      case False
      let ?l = "\<lparr>frame_bg = bg0, bar_bg = bg0, label_bg = bg0, label_fg = off_fg b,
        icon_image = None, icon_bg = None, icon_activebackground = None\<rparr>"
      have "config_colors b = (b\<lparr>look := Some ?l\<rparr>, None)"
        using LabelButton False g0 by (simp add: config_colors_def returns_def)
      then show ?thesis
        using LabelButton False g0 by (intro exI [of _ ?l]) simp
    qed
  qed
qed

lemma fst_and_then: "fst (and_then r f) = (if snd r = None then fst (f (fst r)) else fst r)"
  by (cases r) (auto simp: and_then_def split: option.splits)

lemma snd_and_then: "snd (and_then r f) = (if snd r = None then snd (f (fst r)) else snd r)"
  by (cases r) (auto simp: and_then_def split: option.splits)

lemma fst_returns [simp]: "fst (returns s) = s" and snd_returns [simp]: "snd (returns s) = None"
  by (simp_all add: returns_def)

lemma fst_raises [simp]: "fst (raises e s) = s" and snd_raises [simp]: "snd (raises e s) = Some e"
  by (simp_all add: raises_def)

subsection \<open>What each operation keeps\<close>

lemma config_colors_keeps [simp]:
  "button_class (fst (config_colors b)) = button_class b"
  "selected (fst (config_colors b)) = selected b"
  "hovering (fst (config_colors b)) = hovering b"
  "active (fst (config_colors b)) = active b"
  "selectable (fst (config_colors b)) = selectable b"
  "select_on_click (fst (config_colors b)) = select_on_click b"
  "popup_labels (fst (config_colors b)) = popup_labels b"
  "off_fg (fst (config_colors b)) = off_fg b"
  "bg_colors (fst (config_colors b)) = bg_colors b"
  "fg_colors (fst (config_colors b)) = fg_colors b"
  "bar_colors (fst (config_colors b)) = bar_colors b"
  "images (fst (config_colors b)) = images b"
  "off_icon (fst (config_colors b)) = off_icon b"
  "toggle_command (fst (config_colors b)) = toggle_command b"
  "tool_tip (fst (config_colors b)) = tool_tip b"
  "calls (fst (config_colors b)) = calls b"
  unfolding config_colors_def
  by (simp_all split: button_class.split option.split)

lemma tool_tip_keeps [simp]:
  "button_class (fst (show_tool_tip b)) = button_class b"
  "selected (fst (show_tool_tip b)) = selected b"
  "hovering (fst (show_tool_tip b)) = hovering b"
  "active (fst (show_tool_tip b)) = active b"
  "selectable (fst (show_tool_tip b)) = selectable b"
  "select_on_click (fst (show_tool_tip b)) = select_on_click b"
  "bg_colors (fst (show_tool_tip b)) = bg_colors b"
  "fg_colors (fst (show_tool_tip b)) = fg_colors b"
  "bar_colors (fst (show_tool_tip b)) = bar_colors b"
  "images (fst (show_tool_tip b)) = images b"
  "look (fst (show_tool_tip b)) = look b"
  "calls (fst (show_tool_tip b)) = calls b"
  "button_class (fst (hide_tool_tip b)) = button_class b"
  "selected (fst (hide_tool_tip b)) = selected b"
  "hovering (fst (hide_tool_tip b)) = hovering b"
  "active (fst (hide_tool_tip b)) = active b"
  "selectable (fst (hide_tool_tip b)) = selectable b"
  "select_on_click (fst (hide_tool_tip b)) = select_on_click b"
  "bg_colors (fst (hide_tool_tip b)) = bg_colors b"
  "fg_colors (fst (hide_tool_tip b)) = fg_colors b"
  "bar_colors (fst (hide_tool_tip b)) = bar_colors b"
  "images (fst (hide_tool_tip b)) = images b"
  "look (fst (hide_tool_tip b)) = look b"
  "calls (fst (hide_tool_tip b)) = calls b"
  unfolding show_tool_tip_def hide_tool_tip_def
  by (simp_all split: option.split)

lemma hover_hovering:
  "hovering (fst (hover_enter b))" "\<not> hovering (fst (hover_leave b))"
  by (simp_all add: hover_enter_def hover_leave_def fst_and_then)

lemma hover_keeps:
  "selected (fst (hover_enter b)) = selected b"
  "selected (fst (hover_leave b)) = selected b"
  "calls (fst (hover_enter b)) = calls b"
  "calls (fst (hover_leave b)) = calls b"
  "active (fst (hover_enter b)) = active b"
  "active (fst (hover_leave b)) = active b"
  by (simp_all add: hover_enter_def hover_leave_def fst_and_then)

lemma select_keeps:
  "hovering (fst (select b)) = hovering b"
  "hovering (fst (deselect b)) = hovering b"
  "selected (fst (select b)) = (selectable b \<or> selected b)"
  "\<not> selected (fst (deselect b))"
  by (auto simp add: select_def deselect_def)

lemma click_keeps:
  "hovering (fst (click b)) = hovering b"
  "hovering (fst (user_command b)) = hovering b"
  "hovering (fst (click_button click b)) = hovering b"
  "hovering (fst (click_button user_command b)) = hovering b"
  by (simp_all add: click_def user_command_def click_button_def fst_and_then select_keeps)

lemma assign_keeps [simp]:
  "hovering (fst (assign_bg s h c b)) = hovering b"
  "hovering (fst (assign_fg s h c b)) = hovering b"
  "hovering (fst (assign_bar s h c b)) = hovering b"
  "hovering (fst (assign_image s h i b)) = hovering b"
  "hovering (fst (assign_which w s h c b)) = hovering b"
  "button_class (fst (assign_bg s h c b)) = button_class b"
  "button_class (fst (assign_fg s h c b)) = button_class b"
  "button_class (fst (assign_bar s h c b)) = button_class b"
  "button_class (fst (assign_image s h i b)) = button_class b"
  "button_class (fst (assign_which w s h c b)) = button_class b"
  by (simp_all add: assign_bg_def assign_fg_def assign_bar_def assign_image_def assign_which_def
      split: option.split)

lemma set_color_hovering:
  "hovering (fst (BaseButton_set_color c w s h a b)) = hovering b"
  "hovering (fst (IconButton_set_color c w s h b)) = hovering b"
  by (simp_all add: BaseButton_set_color_def IconButton_set_color_def fst_and_then
      split: option.split)

lemma well_formed_config [simp]: "well_formed (fst (config_colors b)) = well_formed b"
  by (simp add: well_formed_def)

lemma well_formed_tool_tip [simp]:
  "well_formed (fst (show_tool_tip b)) = well_formed b"
  "well_formed (fst (hide_tool_tip b)) = well_formed b"
  by (simp_all add: well_formed_def)

lemma well_formed_flags [simp]:
  "well_formed (b\<lparr>selected := x\<rparr>) = well_formed b"
  "well_formed (b\<lparr>hovering := x\<rparr>) = well_formed b"
  "well_formed (b\<lparr>active := x\<rparr>) = well_formed b"
  "well_formed (b\<lparr>calls := y\<rparr>) = well_formed b"
  "well_formed (b\<lparr>toggle_command := z\<rparr>) = well_formed b"
  by (simp_all add: well_formed_def)

lemma well_formed_assign:
  assumes "well_formed b"
  shows "well_formed (fst (assign_bg s h c b))"
    and "well_formed (fst (assign_fg s h c b))"
    and "well_formed (fst (assign_bar s h c b))"
    and "well_formed (fst (assign_image s h i b))"
    and "well_formed (fst (assign_which w s h c b))"
proof -
  show 1: "well_formed (fst (assign_bg s h c b))"
    using assms setitem2_shape2 [of "bg_colors b" s h c]
    by (auto simp: assign_bg_def well_formed_def split: option.split)
  show 2: "well_formed (fst (assign_fg s h c b))"
    using assms setitem2_shape2 [of "fg_colors b" s h c]
    by (auto simp: assign_fg_def well_formed_def split: option.split)
  show 3: "well_formed (fst (assign_bar s h c b))"
    using assms setitem2_shape2 [of "bar_colors b" s h c]
    by (auto simp: assign_bar_def well_formed_def split: option.split)
  show "well_formed (fst (assign_image s h i b))"
  proof (cases "setitem2 (images b) s h i")
    case None
    then show ?thesis using assms by (simp add: assign_image_def)
  next
    case (Some t)
    have "shape2 t" if "shape2 (images b)"
      using that Some setitem2_shape2 [of "images b" s h i] by auto
    with Some assms show ?thesis
      by (auto simp: assign_image_def well_formed_def)
  qed
  show "well_formed (fst (assign_which w s h c b))"
    using 1 2 3 assms by (simp add: assign_which_def)
qed

lemma well_formed_ops:
  assumes "well_formed b"
  shows "well_formed (fst (turn_on b))"
    and "well_formed (fst (turn_off b))"
    and "well_formed (fst (hover_enter b))"
    and "well_formed (fst (hover_leave b))"
    and "well_formed (fst (select b))"
    and "well_formed (fst (deselect b))"
    and "well_formed (fst (click b))"
    and "well_formed (fst (user_command b))"
  using assms
  by (simp_all add: turn_on_def turn_off_def hover_enter_def hover_leave_def select_def
      deselect_def click_def user_command_def fst_and_then)

lemma well_formed_click_button:
  assumes "well_formed b"
  shows "well_formed (fst (click_button click b))"
    and "well_formed (fst (click_button user_command b))"
  using assms
  by (simp_all add: click_button_def fst_and_then well_formed_ops)

lemma well_formed_set_color:
  assumes "well_formed b"
  shows "well_formed (fst (BaseButton_set_color c w s h a b))"
    and "well_formed (fst (IconButton_set_color c w s h b))"
  using assms
  by (simp_all add: BaseButton_set_color_def IconButton_set_color_def fst_and_then
      well_formed_assign split: option.split)

subsection \<open>Constructors and reachable states\<close>

lemma constructed_Inr: "snd r = None \<Longrightarrow> constructed r = Inr (fst r)"
  by (cases r) (simp add: constructed_def)

lemma well_formed_BaseButton_init:
  "well_formed ((BaseButton_init cls kw)\<lparr>images := [[a, b], [c, d]], off_icon := i\<rparr>)"
  "well_formed (BaseButton_init LabelButton kw)"
  by (simp_all add: well_formed_def shape2_def BaseButton_init_def Let_def)

lemma IconButton_init_Inr:
  "\<exists>b. IconButton_init kw = Inr b \<and> well_formed b \<and> button_class b = IconButton \<and>
     active b \<and> \<not> hovering b \<and> selected b = kw_selected kw \<and>
     selectable b = kw_selectable kw \<and> select_on_click b = kw_select_on_click kw \<and>
     calls b = []"
proof -
  define b0 where "b0 = (BaseButton_init IconButton kw)
    \<lparr>images :=
       map (\<lambda>x. map (\<lambda>y. PhotoImage (fg_colors (BaseButton_init IconButton kw) ! x ! y)
                                  (bg_colors (BaseButton_init IconButton kw) ! x ! y)) [0, 1])
         [0, 1],
     off_icon := Some (PhotoImage (off_fg (BaseButton_init IconButton kw))
                         (bg_colors (BaseButton_init IconButton kw) ! 0 ! 0))\<rparr>"
  have wf: "well_formed b0"
    unfolding b0_def by (simp add: well_formed_BaseButton_init)
  then obtain l where l: "config_colors b0 = (b0\<lparr>look := Some l\<rparr>, None)"
    using config_colors_wf by blast
  have init: "IconButton_init kw = constructed (config_colors b0)"
    by (simp add: IconButton_init_def Let_def b0_def)
  have flags: "button_class b0 = IconButton" "active b0" "\<not> hovering b0"
    "selected b0 = kw_selected kw" "selectable b0 = kw_selectable kw"
    "select_on_click b0 = kw_select_on_click kw" "calls b0 = []"
    by (simp_all add: b0_def BaseButton_init_def Let_def)
  from l init have "IconButton_init kw = Inr (fst (config_colors b0))"
    by (simp add: constructed_def)
  with wf flags show ?thesis by simp
qed

lemma LabelButton_init_Inr:
  "\<exists>b. LabelButton_init kw = Inr b \<and> well_formed b \<and> button_class b = LabelButton"
proof -
  let ?b0 = "BaseButton_init LabelButton kw"
  have wf: "well_formed ?b0" by (rule well_formed_BaseButton_init)
  then obtain l where "config_colors ?b0 = (?b0\<lparr>look := Some l\<rparr>, None)"
    using config_colors_wf by blast
  then have "LabelButton_init kw = Inr (fst (config_colors ?b0))"
    by (simp add: LabelButton_init_def constructed_def)
  moreover have "button_class ?b0 = LabelButton"
    by (simp add: BaseButton_init_def Let_def)
  ultimately show ?thesis using wf by simp
qed

lemma reachable_well_formed: "reachable b \<Longrightarrow> well_formed b"
proof (induction rule: reachable.induct)
  case (IconButton_new kw b)
  then show ?case using IconButton_init_Inr [of kw] by auto
next
  case (LabelButton_new kw b)
  then show ?case using LabelButton_init_Inr [of kw] by auto
next
  case (ToggleIconButton_new cmd kw b)
  then show ?case
    using IconButton_init_Inr [of "kw\<lparr>kw_select_on_click := False\<rparr>"]
    by (auto simp: ToggleIconButton_init_def)
next
  case (ToggleLabelButton_new cmd kw b)
  then show ?case
    using LabelButton_init_Inr [of "kw\<lparr>kw_select_on_click := False\<rparr>"]
    by (auto simp: ToggleLabelButton_init_def)
qed (simp_all add: well_formed_ops well_formed_click_button well_formed_set_color)

text \<open>
  Claim C1. The colour lookup is total: in every reachable state of a button, and for
  each of the eight combinations of \<open>selected\<close>, \<open>hovering\<close> and \<open>active\<close>, the three
  tables have an entry at \<open>[selected][hovering]\<close>, and \<open>config_colors\<close> returns normally
  having configured a look. When active, the background, foreground and bar colour of
  that look are the three entries (and the icon is the image at the same place); when
  not active, they are \<open>bg_colors[0][0]\<close>, \<open>off_fg\<close> and \<open>bg_colors[0][0]\<close> (and the icon
  is \<open>off_icon\<close>).
\<close>

theorem color_lookup_total:
  assumes "reachable b"
  shows "\<exists>bg fg bar_color bg0.
           getitem2 (bg_colors b) sel hov = Some bg \<and>
           getitem2 (fg_colors b) sel hov = Some fg \<and>
           getitem2 (bar_colors b) sel hov = Some bar_color \<and>
           getitem2 (bg_colors b) False False = Some bg0 \<and>
           (\<exists>l. config_colors (b\<lparr>selected := sel, hovering := hov, active := act\<rparr>) =
                 returns (b\<lparr>selected := sel, hovering := hov, active := act, look := Some l\<rparr>) \<and>
                frame_bg l = (if act then bg else bg0) \<and>
                label_bg l = (if act then bg else bg0) \<and>
                label_fg l = (if act then fg else off_fg b) \<and>
                bar_bg l = (if act then bar_color else bg0) \<and>
                icon_image l = (if button_class b = LabelButton then None
                                else if act then getitem2 (images b) sel hov
                                else off_icon b) \<and>
                icon_bg l = (if button_class b = LabelButton then None
                             else Some (if act then bg else bg0)))"
proof -
  have wf: "well_formed b" using assms by (rule reachable_well_formed)
  then obtain bg fg bar_color bg0 where g:
    "getitem2 (bg_colors b) sel hov = Some bg"
    "getitem2 (fg_colors b) sel hov = Some fg"
    "getitem2 (bar_colors b) sel hov = Some bar_color"
    "getitem2 (bg_colors b) False False = Some bg0"
    unfolding well_formed_def using getitem2_shape2 by metis
  let ?b = "b\<lparr>selected := sel, hovering := hov, active := act\<rparr>"
  from wf have "well_formed ?b" by simp
  from config_colors_look [OF this] obtain l where l:
    "config_colors ?b = (?b\<lparr>look := Some l\<rparr>, None)"
    "frame_bg l = (if act then bg else bg0)"
    "label_bg l = frame_bg l"
    "label_fg l = (if act then fg else off_fg b)"
    "bar_bg l = (if act then bar_color else bg0)"
    "icon_image l = (if button_class b = LabelButton then None
                     else if act then getitem2 (images b) sel hov else off_icon b)"
    "icon_bg l = (if button_class b = LabelButton then None else Some (frame_bg l))"
    using g by auto
  have "config_colors ?b =
      returns (b\<lparr>selected := sel, hovering := hov, active := act, look := Some l\<rparr>)"
    using l(1) by (simp add: returns_def)
  with l(2-7) have "\<exists>l. config_colors ?b =
        returns (b\<lparr>selected := sel, hovering := hov, active := act, look := Some l\<rparr>) \<and>
      frame_bg l = (if act then bg else bg0) \<and>
      label_bg l = (if act then bg else bg0) \<and>
      label_fg l = (if act then fg else off_fg b) \<and>
      bar_bg l = (if act then bar_color else bg0) \<and>
      icon_image l = (if button_class b = LabelButton then None
                      else if act then getitem2 (images b) sel hov else off_icon b) \<and>
      icon_bg l = (if button_class b = LabelButton then None
                   else Some (if act then bg else bg0))"
    by (intro exI [of _ l]) simp
  with g show ?thesis by blast
qed

lemma reachable_inactive_icon_button: "reachable inactive_icon_button"
proof -
  obtain b where b: "IconButton_init default_kwargs = Inr b"
    using IconButton_init_Inr by blast
  then have "reachable b" by (rule reachable.IconButton_new)
  then have "reachable (fst (turn_off b))" by (rule reachable.after_turn_off)
  with b show ?thesis by (simp add: inactive_icon_button_def)
qed

lemma constructed_InrD: "constructed r = Inr b \<Longrightarrow> b = fst r"
  by (cases r; cases "snd r") (simp_all add: constructed_def)

lemma IconButton_init_tables:
  assumes "IconButton_init kw = Inr b"
  shows "bg_colors b = bg_colors (BaseButton_init IconButton kw)"
    and "fg_colors b = fg_colors (BaseButton_init IconButton kw)"
    and "bar_colors b = bar_colors (BaseButton_init IconButton kw)"
    and "off_fg b = kw_off_fg kw"
proof -
  define b0 where "b0 = (BaseButton_init IconButton kw)
    \<lparr>images :=
       map (\<lambda>x. map (\<lambda>y. PhotoImage (fg_colors (BaseButton_init IconButton kw) ! x ! y)
                                  (bg_colors (BaseButton_init IconButton kw) ! x ! y)) [0, 1])
         [0, 1],
     off_icon := Some (PhotoImage (off_fg (BaseButton_init IconButton kw))
                         (bg_colors (BaseButton_init IconButton kw) ! 0 ! 0))\<rparr>"
  have "IconButton_init kw = constructed (config_colors b0)"
    by (simp add: IconButton_init_def Let_def b0_def)
  with assms have b: "b = fst (config_colors b0)"
    by (simp add: constructed_InrD)
  show "bg_colors b = bg_colors (BaseButton_init IconButton kw)"
    and "fg_colors b = fg_colors (BaseButton_init IconButton kw)"
    and "bar_colors b = bar_colors (BaseButton_init IconButton kw)"
    and "off_fg b = kw_off_fg kw"
    by (simp_all add: b b0_def BaseButton_init_def Let_def)
qed

lemma inactive_icon_button_tables:
  "bg_colors inactive_icon_button = [[''#000000'', ''#000000''], [''#070708'', ''#070708'']]"
  "fg_colors inactive_icon_button = [[''#888888'', ''#74d573''], [''#13ce12'', ''#74d573'']]"
  "bar_colors inactive_icon_button = [[''#000000'', ''#dcdcdc''], [''#13ce12'', ''#13ce12'']]"
  "off_fg inactive_icon_button = ''#555555''"
proof -
  obtain b where b: "IconButton_init default_kwargs = Inr b"
    using IconButton_init_Inr by blast
  from IconButton_init_tables [OF b] b
  show "bg_colors inactive_icon_button = [[''#000000'', ''#000000''], [''#070708'', ''#070708'']]"
    "fg_colors inactive_icon_button = [[''#888888'', ''#74d573''], [''#13ce12'', ''#74d573'']]"
    "bar_colors inactive_icon_button = [[''#000000'', ''#dcdcdc''], [''#13ce12'', ''#13ce12'']]"
    "off_fg inactive_icon_button = ''#555555''"
    by (simp_all add: inactive_icon_button_def turn_off_def BaseButton_init_def Let_def
        default_kwargs_def if_else_def truthy_def)
qed

text \<open>
  The theorem at a default IconButton that was turned off, with the flags set to selected
  and hovering: the colours of the active look and those of the inactive look.
\<close>

theorem color_lookup_total_witness:
  "reachable inactive_icon_button \<and>
   (\<exists>l. config_colors (inactive_icon_button\<lparr>selected := True, hovering := True, active := True\<rparr>) =
         returns (inactive_icon_button\<lparr>selected := True, hovering := True, active := True,
           look := Some l\<rparr>) \<and>
        frame_bg l = ''#070708'' \<and> label_fg l = ''#74d573'' \<and> bar_bg l = ''#13ce12'') \<and>
   (\<exists>l. config_colors (inactive_icon_button\<lparr>selected := True, hovering := True, active := False\<rparr>) =
         returns (inactive_icon_button\<lparr>selected := True, hovering := True, active := False,
           look := Some l\<rparr>) \<and>
        frame_bg l = ''#000000'' \<and> label_fg l = ''#555555'' \<and> bar_bg l = ''#000000'')"
proof -
  have r: "reachable inactive_icon_button" by (rule reachable_inactive_icon_button)
  have t: "getitem2 (bg_colors inactive_icon_button) True True = Some ''#070708''"
    "getitem2 (fg_colors inactive_icon_button) True True = Some ''#74d573''"
    "getitem2 (bar_colors inactive_icon_button) True True = Some ''#13ce12''"
    "getitem2 (bg_colors inactive_icon_button) False False = Some ''#000000''"
    by (simp_all add: inactive_icon_button_tables getitem2_rows)
  from color_lookup_total [OF r, of True True True] t
  have on: "\<exists>l. config_colors (inactive_icon_button\<lparr>selected := True, hovering := True, active := True\<rparr>) =
         returns (inactive_icon_button\<lparr>selected := True, hovering := True, active := True,
           look := Some l\<rparr>) \<and>
        frame_bg l = ''#070708'' \<and> label_fg l = ''#74d573'' \<and> bar_bg l = ''#13ce12''"
    by auto
  from color_lookup_total [OF r, of True True False] t
  have off: "\<exists>l. config_colors (inactive_icon_button\<lparr>selected := True, hovering := True, active := False\<rparr>) =
         returns (inactive_icon_button\<lparr>selected := True, hovering := True, active := False,
           look := Some l\<rparr>) \<and>
        frame_bg l = ''#000000'' \<and> label_fg l = ''#555555'' \<and> bar_bg l = ''#000000''"
    by (auto simp: inactive_icon_button_tables)
  from r on off show ?thesis by blast
qed

lemma inactive_icon_button_flags:
  "\<not> active inactive_icon_button" "\<not> hovering inactive_icon_button"
  "\<not> selected inactive_icon_button" "calls inactive_icon_button = []"
proof -
  obtain b where b: "IconButton_init default_kwargs = Inr b" "\<not> hovering b"
    "selected b = kw_selected default_kwargs" "calls b = []"
    using IconButton_init_Inr by blast
  then show "\<not> active inactive_icon_button" "\<not> hovering inactive_icon_button"
    "\<not> selected inactive_icon_button" "calls inactive_icon_button = []"
    by (simp_all add: inactive_icon_button_def turn_off_def default_kwargs_def)
qed

text \<open>
  Claim C4 as stated fails: the pointer entering an inactive button that is not hovered
  changes \<open>hovering\<close>.
\<close>

theorem inactive_hover_counterexample:
  "\<not> active inactive_icon_button \<and>
   hovering (fst (hover_enter inactive_icon_button)) \<noteq> hovering inactive_icon_button"
  using inactive_icon_button_flags by (simp add: hover_hovering)

text \<open>
  Claim C4, amended. On a button whose \<open>active\<close> flag is false, a click calls no callback
  and leaves the whole state unchanged, whatever the command; the pointer entering or
  leaving calls no callback and leaves \<open>selected\<close>, \<open>active\<close> and the configured look
  unchanged, but still sets \<open>hovering\<close> (true on enter, false on leave).
\<close>

theorem inactive_button_amended:
  assumes "\<not> active b"
  shows "click_button click_command b = returns b \<and>
         calls (fst (hover_enter b)) = calls b \<and>
         calls (fst (hover_leave b)) = calls b \<and>
         selected (fst (hover_enter b)) = selected b \<and>
         selected (fst (hover_leave b)) = selected b \<and>
         look (fst (hover_enter b)) = look b \<and>
         look (fst (hover_leave b)) = look b \<and>
         \<not> active (fst (hover_enter b)) \<and>
         \<not> active (fst (hover_leave b)) \<and>
         hovering (fst (hover_enter b)) \<and>
         \<not> hovering (fst (hover_leave b))"
  using assms
  by (simp add: click_button_def hover_enter_def hover_leave_def fst_and_then)

text \<open>The amended claim at the default IconButton, turned off.\<close>

theorem inactive_button_amended_witness:
  "\<not> active inactive_icon_button \<and>
   click_button user_command inactive_icon_button = returns inactive_icon_button \<and>
   calls (fst (hover_enter inactive_icon_button)) = [] \<and>
   \<not> selected (fst (hover_enter inactive_icon_button)) \<and>
   hovering (fst (hover_enter inactive_icon_button))"
  using inactive_button_amended [of inactive_icon_button user_command]
    inactive_icon_button_flags
  by simp

text \<open>
  Claim C5. In every state of a button, the pointer entering leaves \<open>hovering\<close> true and
  the pointer leaving leaves it false; no other operation of a button changes
  \<open>hovering\<close>.
\<close>

theorem hovering_set_by_enter_and_leave_only:
  "hovering (fst (hover_enter b)) \<and>
   \<not> hovering (fst (hover_leave b)) \<and>
   hovering (fst (config_colors b)) = hovering b \<and>
   hovering (fst (turn_on b)) = hovering b \<and>
   hovering (fst (turn_off b)) = hovering b \<and>
   hovering (fst (select b)) = hovering b \<and>
   hovering (fst (deselect b)) = hovering b \<and>
   hovering (fst (click_button user_command b)) = hovering b \<and>
   hovering (fst (click_button click b)) = hovering b \<and>
   hovering (fst (BaseButton_set_color c which sel hover all b)) = hovering b \<and>
   hovering (fst (IconButton_set_color c which sel hover b)) = hovering b"
  by (simp add: hover_hovering select_keeps click_keeps set_color_hovering
      turn_on_def turn_off_def)

text \<open>
  Claim C6. \<open>select\<close> leaves \<open>selected\<close> true when the button is selectable (and
  unchanged otherwise), \<open>deselect\<close> leaves it false, and the pointer entering or leaving
  does not change it.
\<close>

theorem selected_persists_across_hover:
  "selected (fst (select b)) = (selectable b \<or> selected b) \<and>
   \<not> selected (fst (deselect b)) \<and>
   selected (fst (hover_enter b)) = selected b \<and>
   selected (fst (hover_leave b)) = selected b"
  by (simp add: select_keeps hover_keeps)

subsection \<open>DoubleIconButton and CheckButton\<close>


lemma switch_fields [simp]:
  "double_status (switch1 d) = False" "Button1_packed (switch1 d) = True"
  "Button2_packed (switch1 d) = False"
  "events (switch1 d) = events d @ [pack_forget Button2_slot, pack Button1_slot]"
  "Button1 (switch1 d) = Button1 d" "Button2 (switch1 d) = Button2 d"
  "command1 (switch1 d) = command1 d" "command2 (switch1 d) = command2 d"
  "double_status (switch2 d) = True" "Button1_packed (switch2 d) = False"
  "Button2_packed (switch2 d) = True"
  "events (switch2 d) = events d @ [pack_forget Button1_slot, pack Button2_slot]"
  "Button1 (switch2 d) = Button1 d" "Button2 (switch2 d) = Button2 d"
  "command1 (switch2 d) = command1 d" "command2 (switch2 d) = command2 d"
  by (simp_all add: switch1_def switch2_def)

lemma click_fields [simp]:
  "double_status (click1 d) = True" "Button1_packed (click1 d) = False"
  "Button2_packed (click1 d) = True"
  "events (click1 d) = events d @ [pack_forget Button1_slot, pack Button2_slot, invoke (command1 d)]"
  "Button1 (click1 d) = Button1 d" "Button2 (click1 d) = Button2 d"
  "double_status (click2 d) = False" "Button1_packed (click2 d) = True"
  "Button2_packed (click2 d) = False"
  "events (click2 d) = events d @ [pack_forget Button2_slot, pack Button1_slot, invoke (command2 d)]"
  "Button1 (click2 d) = Button1 d" "Button2 (click2 d) = Button2 d"
  by (simp_all add: click1_def click2_def call_command1_def call_command2_def)


lemma inner_click_button_events:
  "events (fst (Button1_click_button d)) =
     (if active (Button1 d) then events (click1 d) else events d)"
  "events (fst (Button2_click_button d)) =
     (if active (Button2 d) then events (click2 d) else events d)"
  by (auto simp add: Button1_click_button_def Button2_click_button_def fst_and_then
      split: prod.split)





section \<open>Properties of the PdfDisplay\<close>

subsection \<open>The page loop\<close>

lemma render_pages_frame:
  "\<exists>imgs n. fst (render_pages env pages s) = s\<lparr>img_object_list := imgs, images_created := n\<rparr>"
proof (induction env pages s rule: render_pages.induct)
  case (1 env s)
  have "s = s\<lparr>img_object_list := img_object_list s, images_created := images_created s\<rparr>"
    by simp
  then show ?case by (metis fst_returns render_pages.simps(1))
next
  case (2 env page pages s)
  have same: "s = s\<lparr>img_object_list := img_object_list s, images_created := images_created s\<rparr>"
    by simp
  show ?case
  proof (cases "py_int env (py_mul env (py_mul env (PyInt 72) (zoom_fact s)) (scale_fact s))")
    case None
    then have "fst (render_pages env (page # pages) s) = s" by simp
    with same show ?thesis by metis
  next
    case (Some dpi)
    show ?thesis
    proof (cases "getImageData env page dpi")
      case None
      with Some have "fst (render_pages env (page # pages) s) = s" by simp
      with same show ?thesis by metis
    next
      case (Some data)
      from "2.IH" [OF \<open>py_int env _ = Some dpi\<close> Some]
      obtain imgs n where
        "fst (render_pages env pages
           (s\<lparr>img_object_list :=
                img_object_list s @ [\<lparr>image_id = images_created s, image_data = data\<rparr>],
              images_created := Suc (images_created s)\<rparr>)) =
         s\<lparr>img_object_list :=
                img_object_list s @ [\<lparr>image_id = images_created s, image_data = data\<rparr>],
              images_created := Suc (images_created s)\<rparr>
          \<lparr>img_object_list := imgs, images_created := n\<rparr>"
        by blast
      with Some \<open>py_int env _ = Some dpi\<close>
      have "fst (render_pages env (page # pages) s) =
          s\<lparr>img_object_list := imgs, images_created := n\<rparr>"
        by simp
      then show ?thesis by blast
    qed
  qed
qed

lemma render_pages_keeps [simp]:
  "scale_fact (fst (render_pages env pages s)) = scale_fact s"
  "zoom_fact (fst (render_pages env pages s)) = zoom_fact s"
  "width (fst (render_pages env pages s)) = width s"
  "height (fst (render_pages env pages s)) = height s"
  "filename (fst (render_pages env pages s)) = filename s"
  "started_threads (fst (render_pages env pages s)) = started_threads s"
  "pdf_active (fst (render_pages env pages s)) = pdf_active s"
  "pdf_frame (fst (render_pages env pages s)) = pdf_frame s"
  "pdf_text (fst (render_pages env pages s)) = pdf_text s"
  "label_packed (fst (render_pages env pages s)) = label_packed s"
  "buttons_placed (fst (render_pages env pages s)) = buttons_placed s"
proof -
  obtain imgs n where
    "fst (render_pages env pages s) = s\<lparr>img_object_list := imgs, images_created := n\<rparr>"
    using render_pages_frame by blast
  then show
    "scale_fact (fst (render_pages env pages s)) = scale_fact s"
    "zoom_fact (fst (render_pages env pages s)) = zoom_fact s"
    "width (fst (render_pages env pages s)) = width s"
    "height (fst (render_pages env pages s)) = height s"
    "filename (fst (render_pages env pages s)) = filename s"
    "started_threads (fst (render_pages env pages s)) = started_threads s"
    "pdf_active (fst (render_pages env pages s)) = pdf_active s"
    "pdf_frame (fst (render_pages env pages s)) = pdf_frame s"
    "pdf_text (fst (render_pages env pages s)) = pdf_text s"
    "label_packed (fst (render_pages env pages s)) = label_packed s"
    "buttons_placed (fst (render_pages env pages s)) = buttons_placed s"
    by simp_all
qed

lemma render_pages_ids:
  "map image_id (img_object_list (fst (render_pages env pages s))) =
     map image_id (img_object_list s) @
       [images_created s ..< images_created (fst (render_pages env pages s))] \<and>
   images_created s \<le> images_created (fst (render_pages env pages s))"
proof (induction env pages s rule: render_pages.induct)
  case (1 env s)
  show ?case by simp
next
  case (2 env page pages s)
  show ?case
  proof (cases "py_int env (py_mul env (py_mul env (PyInt 72) (zoom_fact s)) (scale_fact s))")
    case None
    then have "fst (render_pages env (page # pages) s) = s" by simp
    then show ?thesis by simp
  next
    case (Some dpi)
    show ?thesis
    proof (cases "getImageData env page dpi")
      case None
      with Some have "fst (render_pages env (page # pages) s) = s" by simp
      then show ?thesis by simp
    next
      case (Some data)
      define s' where "s' = s\<lparr>img_object_list :=
          img_object_list s @ [\<lparr>image_id = images_created s, image_data = data\<rparr>],
          images_created := Suc (images_created s)\<rparr>"
      define r where "r = fst (render_pages env pages s')"
      have step: "fst (render_pages env (page # pages) s) = r"
        using Some \<open>py_int env _ = Some dpi\<close> by (simp add: r_def s'_def)
      have ih: "map image_id (img_object_list r) =
            map image_id (img_object_list s') @ [images_created s' ..< images_created r]"
        and le: "images_created s' \<le> images_created r"
        using "2.IH" [OF \<open>py_int env _ = Some dpi\<close> Some]
        unfolding r_def s'_def by blast+
      have c: "images_created s' = Suc (images_created s)"
        and l: "map image_id (img_object_list s') =
                  map image_id (img_object_list s) @ [images_created s]"
        by (simp_all add: s'_def)
      from le c have lt: "images_created s < images_created r" by simp
      then have "[images_created s ..< images_created r] =
          images_created s # [Suc (images_created s) ..< images_created r]"
        by (rule upt_conv_Cons)
      with ih c l have "map image_id (img_object_list r) =
          map image_id (img_object_list s) @ [images_created s ..< images_created r]"
        by simp
      with lt step show ?thesis by simp
    qed
  qed
qed

lemma render_pages_length:
  "snd (render_pages env pages s) = None \<Longrightarrow>
   length (img_object_list (fst (render_pages env pages s))) =
     length (img_object_list s) + length pages"
proof (induction env pages s rule: render_pages.induct)
  case (1 env s)
  show ?case by simp
next
  case (2 env page pages s)
  from "2.prems" obtain dpi where dpi:
    "py_int env (py_mul env (py_mul env (PyInt 72) (zoom_fact s)) (scale_fact s)) = Some dpi"
    by (cases "py_int env (py_mul env (py_mul env (PyInt 72) (zoom_fact s)) (scale_fact s))")
      simp_all
  from "2.prems" dpi obtain data where data: "getImageData env page dpi = Some data"
    by (cases "getImageData env page dpi") simp_all
  define s' where "s' = s\<lparr>img_object_list :=
      img_object_list s @ [\<lparr>image_id = images_created s, image_data = data\<rparr>],
      images_created := Suc (images_created s)\<rparr>"
  have step: "render_pages env (page # pages) s = render_pages env pages s'"
    using dpi data by (simp add: s'_def)
  with "2.prems" have "snd (render_pages env pages s') = None" by simp
  then have "length (img_object_list (fst (render_pages env pages s'))) =
      length (img_object_list s') + length pages"
    using "2.IH" [OF dpi data] unfolding s'_def by blast
  moreover have "length (img_object_list s') = Suc (length (img_object_list s))"
    by (simp add: s'_def)
  ultimately show ?case using step by simp
qed

lemma render_pages_ok:
  assumes "py_int env (py_mul env (py_mul env (PyInt 72) (zoom_fact s)) (scale_fact s)) = Some dpi"
    and "list_all (\<lambda>p. getImageData env p dpi \<noteq> None) pages"
  shows "snd (render_pages env pages s) = None \<and>
         map image_data (img_object_list (fst (render_pages env pages s))) =
           map image_data (img_object_list s) @ map (\<lambda>p. the (getImageData env p dpi)) pages"
  using assms
proof (induction pages arbitrary: s)
  case Nil
  show ?case by simp
next
  case (Cons page pages)
  from Cons.prems(2) obtain data where data: "getImageData env page dpi = Some data"
    and rest: "list_all (\<lambda>p. getImageData env p dpi \<noteq> None) pages"
    by auto
  define s' where "s' = s\<lparr>img_object_list :=
      img_object_list s @ [\<lparr>image_id = images_created s, image_data = data\<rparr>],
      images_created := Suc (images_created s)\<rparr>"
  have step: "render_pages env (page # pages) s = render_pages env pages s'"
    using Cons.prems(1) data by (simp add: s'_def)
  have "py_int env (py_mul env (py_mul env (PyInt 72) (zoom_fact s')) (scale_fact s')) = Some dpi"
    using Cons.prems(1) by (simp add: s'_def)
  from Cons.IH [OF this rest]
  have "snd (render_pages env pages s') = None"
    and "map image_data (img_object_list (fst (render_pages env pages s'))) =
           map image_data (img_object_list s') @ map (\<lambda>p. the (getImageData env p dpi)) pages"
    by blast+
  moreover have "map image_data (img_object_list s') = map image_data (img_object_list s) @ [data]"
    by (simp add: s'_def)
  ultimately show ?case using step data by simp
qed

subsection \<open>Rendering a file\<close>

lemma and_then_returns [simp]: "and_then (returns s) f = f s"
  by (simp add: and_then_def returns_def)

lemma and_then_raises [simp]: "and_then (raises e s) f = raises e s"
  by (simp add: and_then_def raises_def)

lemma position_buttons_keeps [simp]:
  "scale_fact (position_buttons s) = scale_fact s"
  "zoom_fact (position_buttons s) = zoom_fact s"
  "width (position_buttons s) = width s"
  "height (position_buttons s) = height s"
  "filename (position_buttons s) = filename s"
  "started_threads (position_buttons s) = started_threads s"
  "img_object_list (position_buttons s) = img_object_list s"
  "images_created (position_buttons s) = images_created s"
  "pdf_frame (position_buttons s) = pdf_frame s"
  "pdf_text (position_buttons s) = pdf_text s"
  "pdf_active (position_buttons s) = pdf_active s"
  "buttons_placed (position_buttons s) = (pdf_active s \<or> buttons_placed s)"
  by (simp_all add: position_buttons_def)

lemma remove_all_keeps [simp]:
  "scale_fact (remove_all s) = scale_fact s"
  "zoom_fact (remove_all s) = zoom_fact s"
  "width (remove_all s) = width s"
  "height (remove_all s) = height s"
  "filename (remove_all s) = filename s"
  "started_threads (remove_all s) = started_threads s"
  "img_object_list (remove_all s) = img_object_list s"
  "images_created (remove_all s) = images_created s"
  "\<not> pdf_active (remove_all s)"
  by (simp_all add: remove_all_def Let_def split: option.split)

lemma new_pdf_frame_keeps [simp]:
  "scale_fact (fst (new_pdf_frame env s)) = scale_fact s"
  "zoom_fact (fst (new_pdf_frame env s)) = zoom_fact s"
  "width (fst (new_pdf_frame env s)) = width s"
  "height (fst (new_pdf_frame env s)) = height s"
  "filename (fst (new_pdf_frame env s)) = filename s"
  "started_threads (fst (new_pdf_frame env s)) = started_threads s"
  "img_object_list (fst (new_pdf_frame env s)) = img_object_list s"
  "images_created (fst (new_pdf_frame env s)) = images_created s"
  "pdf_active (fst (new_pdf_frame env s)) = pdf_active s"
  by (simp_all add: new_pdf_frame_def split: option.split)

lemma render_pdf_keeps [simp]:
  "scale_fact (fst (render_pdf env s)) = scale_fact s"
  "zoom_fact (fst (render_pdf env s)) = zoom_fact s"
  "width (fst (render_pdf env s)) = width s"
  "height (fst (render_pdf env s)) = height s"
  "filename (fst (render_pdf env s)) = filename s"
  "started_threads (fst (render_pdf env s)) = started_threads s"
  "pdf_active (fst (render_pdf env s)) = pdf_active s"
  by (simp_all add: render_pdf_def fst_and_then split: option.split)

lemma render_pdf_reset: "render_pdf env (s\<lparr>img_object_list := old\<rparr>) = render_pdf env s"
  by (simp add: render_pdf_def)

lemma render_pdf_ids:
  "map image_id (img_object_list (fst (render_pdf env s))) =
     [images_created s ..< images_created (fst (render_pdf env s))] \<and>
   images_created s \<le> images_created (fst (render_pdf env s))"
proof (cases "filename s")
  case None
  then show ?thesis by (simp add: render_pdf_def)
next
  case (Some name)
  show ?thesis
  proof (cases "fitz_open env name")
    case None
    with Some show ?thesis by (simp add: render_pdf_def)
  next
    case (Some pages)
    define r where "r = fst (render_pages env pages (s\<lparr>img_object_list := []\<rparr>))"
    have imgs: "img_object_list (fst (render_pdf env s)) = img_object_list r"
      and cnt: "images_created (fst (render_pdf env s)) = images_created r"
      using Some \<open>filename s = Some name\<close>
      by (simp_all add: render_pdf_def fst_and_then r_def)
    have "map image_id (img_object_list r) = [images_created s ..< images_created r] \<and>
        images_created s \<le> images_created r"
      using render_pages_ids [of env pages "s\<lparr>img_object_list := []\<rparr>"]
      by (simp add: r_def)
    with imgs cnt show ?thesis by simp
  qed
qed

lemma render_pdf_returned:
  assumes "snd (render_pdf env s) = None"
  shows "\<exists>name pages. filename s = Some name \<and> fitz_open env name = Some pages \<and>
           length (img_object_list (fst (render_pdf env s))) = length pages"
proof -
  from assms obtain name where name: "filename s = Some name"
    by (cases "filename s") (simp_all add: render_pdf_def)
  from assms name obtain pages where pages: "fitz_open env name = Some pages"
    by (cases "fitz_open env name") (simp_all add: render_pdf_def)
  define r where "r = render_pages env pages (s\<lparr>img_object_list := []\<rparr>)"
  have "snd r = None"
    using assms name pages by (simp add: render_pdf_def snd_and_then r_def split: if_splits)
  then have "length (img_object_list (fst r)) = length pages"
    using render_pages_length [of env pages "s\<lparr>img_object_list := []\<rparr>"] by (simp add: r_def)
  moreover have "img_object_list (fst (render_pdf env s)) = img_object_list (fst r)"
    using name pages by (simp add: render_pdf_def fst_and_then r_def)
  ultimately show ?thesis using name pages by simp
qed

lemma render_pdf_ok:
  assumes "renderable env s (scale_fact s) pages dpi"
  shows "snd (render_pdf env s) = None"
    and "map image_data (img_object_list (fst (render_pdf env s))) =
           map (\<lambda>p. the (getImageData env p dpi)) pages"
    and "pdf_frame (fst (render_pdf env s)) =
           Some \<lparr>frame_height = the (py_int env (py_mul env (height s) (scale_fact s))),
                 frame_width = the (py_int env (py_mul env (width s) (scale_fact s))),
                 destroyed = False\<rparr>"
    and "pdf_text (fst (render_pdf env s)) =
           add_pages 0 (img_object_list (fst (render_pdf env s))) []"
proof -
  from assms obtain name where name: "filename s = Some name"
    and pages: "fitz_open env name = Some pages"
    by (cases "filename s") (simp_all add: renderable_def)
  from assms have dpi:
    "py_int env (py_mul env (py_mul env (PyInt 72) (zoom_fact s)) (scale_fact s)) = Some dpi"
    and all: "list_all (\<lambda>p. getImageData env p dpi \<noteq> None) pages"
    by (simp_all add: renderable_def)
  from assms obtain w h where w: "py_int env (py_mul env (width s) (scale_fact s)) = Some w"
    and h: "py_int env (py_mul env (height s) (scale_fact s)) = Some h"
    by (auto simp: renderable_def)
  define r where "r = render_pages env pages (s\<lparr>img_object_list := []\<rparr>)"
  have r: "snd r = None"
    "map image_data (img_object_list (fst r)) = map (\<lambda>p. the (getImageData env p dpi)) pages"
    using render_pages_ok [of env "s\<lparr>img_object_list := []\<rparr>" dpi pages] dpi all
    by (simp_all add: r_def)
  have f: "new_pdf_frame env (fst r) =
      returns (position_buttons ((fst r)\<lparr>pdf_frame :=
          Some \<lparr>frame_height = h, frame_width = w, destroyed = False\<rparr>, pdf_text := []\<rparr>))"
    using w h by (simp add: new_pdf_frame_def r_def)
  have unfold: "render_pdf env s =
      and_then r (\<lambda>s. and_then (new_pdf_frame env s)
        (\<lambda>s. returns (s\<lparr>pdf_text := add_pages 0 (img_object_list s) (pdf_text s)\<rparr>)))"
    using name pages by (simp add: render_pdf_def r_def)
  show "snd (render_pdf env s) = None"
    using r(1) f by (simp add: unfold snd_and_then)
  show "map image_data (img_object_list (fst (render_pdf env s))) =
           map (\<lambda>p. the (getImageData env p dpi)) pages"
    using r f by (simp add: unfold fst_and_then)
  show "pdf_frame (fst (render_pdf env s)) =
           Some \<lparr>frame_height = the (py_int env (py_mul env (height s) (scale_fact s))),
                 frame_width = the (py_int env (py_mul env (width s) (scale_fact s))),
                 destroyed = False\<rparr>"
    using r(1) f w h by (simp add: unfold fst_and_then)
  show "pdf_text (fst (render_pdf env s)) =
           add_pages 0 (img_object_list (fst (render_pdf env s))) []"
    using r(1) f by (simp add: unfold fst_and_then)
qed

subsection \<open>Showing and zooming\<close>

lemma renderable_after_remove_all:
  "renderable env ((remove_all (s\<lparr>scale_fact := sc\<rparr>))\<lparr>pdf_active := True\<rparr>) sc pages dpi =
   renderable env s sc pages dpi"
  by (simp add: renderable_def)

lemma rerender_ids:
  "map image_id (img_object_list (fst (render_pdf env ((remove_all s)\<lparr>pdf_active := True\<rparr>)))) =
     [images_created s ..<
        images_created (fst (render_pdf env ((remove_all s)\<lparr>pdf_active := True\<rparr>)))]"
  using render_pdf_ids [of env "(remove_all s)\<lparr>pdf_active := True\<rparr>"] by simp

lemma start_keeps [simp]:
  "scale_fact (start t s) = scale_fact s"
  "zoom_fact (start t s) = zoom_fact s"
  "width (start t s) = width s"
  "height (start t s) = height s"
  "filename (start t s) = filename s"
  "img_object_list (start t s) = img_object_list s"
  "images_created (start t s) = images_created s"
  "pdf_frame (start t s) = pdf_frame s"
  "pdf_text (start t s) = pdf_text s"
  "pdf_active (start t s) = pdf_active s"
  "started_threads (start t s) = started_threads s @ [t]"
  by (simp_all add: start_def)

lemma show_pdf_fields:
  "scale_fact (fst (show_pdf env name s)) = PyInt 1"
  "filename (fst (show_pdf env name s)) = Some name"
  "zoom_fact (fst (show_pdf env name s)) = zoom_fact s"
  "width (fst (show_pdf env name s)) = width s"
  "height (fst (show_pdf env name s)) = height s"
  "pdf_active (fst (show_pdf env name s))"
  "started_threads (fst (show_pdf env name s)) =
     (if snd (show_pdf env name s) = None then started_threads s @ [Thread None]
      else started_threads s)"
  by (simp_all add: show_pdf_def fst_and_then snd_and_then render_pdf_returns_def)

lemma zoom_fields:
  "scale_fact (fst (zoom_in env s)) =
     py_mul env (scale_fact s) (PyFloat (float_of_literal env (11 / 10)))"
  "scale_fact (fst (zoom_out env s)) =
     py_truediv env (scale_fact s) (float_of_literal env (11 / 10))"
  "filename (fst (zoom_in env s)) = filename s"
  "filename (fst (zoom_out env s)) = filename s"
  "zoom_fact (fst (zoom_in env s)) = zoom_fact s"
  "zoom_fact (fst (zoom_out env s)) = zoom_fact s"
  "width (fst (zoom_in env s)) = width s"
  "height (fst (zoom_in env s)) = height s"
  "started_threads (fst (zoom_in env s)) =
     (if snd (zoom_in env s) = None then started_threads s @ [Thread None]
      else started_threads s)"
  "started_threads (fst (zoom_out env s)) =
     (if snd (zoom_out env s) = None then started_threads s @ [Thread None]
      else started_threads s)"
  by (simp_all add: zoom_in_def zoom_out_def fst_and_then snd_and_then render_pdf_returns_def)

lemma zoom_ids:
  "map image_id (img_object_list (fst (zoom_in env s))) =
     [images_created s ..< images_created (fst (zoom_in env s))]"
  "map image_id (img_object_list (fst (zoom_out env s))) =
     [images_created s ..< images_created (fst (zoom_out env s))]"
  using rerender_ids [of env "s\<lparr>scale_fact :=
      py_mul env (scale_fact s) (PyFloat (float_of_literal env (11 / 10)))\<rparr>"]
    rerender_ids [of env "s\<lparr>scale_fact :=
      py_truediv env (scale_fact s) (float_of_literal env (11 / 10))\<rparr>"]
  by (simp_all add: zoom_in_def zoom_out_def fst_and_then)

lemma rerender_ok:
  assumes "renderable env s sc pages dpi"
  defines "r \<equiv> render_pdf env ((remove_all (s\<lparr>scale_fact := sc\<rparr>))\<lparr>pdf_active := True\<rparr>)"
  shows "snd r = None"
    and "map image_data (img_object_list (fst r)) = map (\<lambda>p. the (getImageData env p dpi)) pages"
proof -
  let ?s = "(remove_all (s\<lparr>scale_fact := sc\<rparr>))\<lparr>pdf_active := True\<rparr>"
  have "renderable env ?s (scale_fact ?s) pages dpi"
    using assms(1) by (simp add: renderable_after_remove_all)
  from render_pdf_ok(1,2) [OF this]
  show "snd r = None"
    and "map image_data (img_object_list (fst r)) = map (\<lambda>p. the (getImageData env p dpi)) pages"
    by (simp_all add: r_def)
qed

lemma zoom_in_ok:
  assumes "renderable env s
      (py_mul env (scale_fact s) (PyFloat (float_of_literal env (11 / 10)))) pages dpi"
  shows "snd (zoom_in env s) = None \<and>
     map image_data (img_object_list (fst (zoom_in env s))) =
       map (\<lambda>p. the (getImageData env p dpi)) pages"
  using rerender_ok [OF assms]
  by (simp add: zoom_in_def fst_and_then snd_and_then)

lemma zoom_out_ok:
  assumes "renderable env s
      (py_truediv env (scale_fact s) (float_of_literal env (11 / 10))) pages dpi"
  shows "snd (zoom_out env s) = None \<and>
     map image_data (img_object_list (fst (zoom_out env s))) =
       map (\<lambda>p. the (getImageData env p dpi)) pages"
  using rerender_ok [OF assms]
  by (simp add: zoom_out_def fst_and_then snd_and_then)

lemma show_pdf_ok:
  assumes "renderable env (s\<lparr>filename := Some name\<rparr>) (PyInt 1) pages dpi"
  shows "snd (show_pdf env name s) = None \<and>
     map image_data (img_object_list (fst (show_pdf env name s))) =
       map (\<lambda>p. the (getImageData env p dpi)) pages"
proof -
  have eq: "s\<lparr>scale_fact := PyInt 1, filename := Some name\<rparr> =
      s\<lparr>filename := Some name\<rparr>\<lparr>scale_fact := PyInt 1\<rparr>"
    by simp
  show ?thesis
    using rerender_ok [OF assms]
    by (simp add: show_pdf_def fst_and_then snd_and_then eq del: pdf_display.update_convs)
qed

text \<open>
  Claim C2. \<open>render_pdf\<close> starts from the empty list whatever the list was, so that its
  outcome does not depend on the prior images; the images in the list afterwards are
  exactly the image objects created during this render, in order; when the prior images
  are fresh, none of them is in the list afterwards; and on a normal return the list has
  one image for each page of the file.
\<close>

theorem render_pdf_discards_prior_images:
  "render_pdf env (s\<lparr>img_object_list := old\<rparr>) = render_pdf env s \<and>
   map image_id (img_object_list (fst (render_pdf env s))) =
     [images_created s ..< images_created (fst (render_pdf env s))] \<and>
   (ids_fresh s \<longrightarrow>
      set (img_object_list (fst (render_pdf env s))) \<inter> set (img_object_list s) = {} \<and>
      ids_fresh (fst (render_pdf env s))) \<and>
   (snd (render_pdf env s) = None \<longrightarrow>
      (\<exists>name pages. filename s = Some name \<and> fitz_open env name = Some pages \<and>
         length (img_object_list (fst (render_pdf env s))) = length pages))"
proof -
  let ?r = "fst (render_pdf env s)"
  have ids: "map image_id (img_object_list ?r) = [images_created s ..< images_created ?r]"
    using render_pdf_ids [of env s] by blast
  have new: "images_created s \<le> image_id i \<and> image_id i < images_created ?r"
    if "i \<in> set (img_object_list ?r)" for i
  proof -
    from that have "image_id i \<in> set (map image_id (img_object_list ?r))" by simp
    with ids show ?thesis by simp
  qed
  have "set (img_object_list ?r) \<inter> set (img_object_list s) = {} \<and> ids_fresh ?r"
    if "ids_fresh s"
  proof -
    have "i \<notin> set (img_object_list s)" if "i \<in> set (img_object_list ?r)" for i
      using new [OF that] \<open>ids_fresh s\<close> by (auto simp: ids_fresh_def)
    moreover have "ids_fresh ?r" using new by (simp add: ids_fresh_def)
    ultimately show ?thesis by blast
  qed
  with ids render_pdf_returned [of env s] render_pdf_reset [of env old s]
  show ?thesis by blast
qed

lemma started_thread_has_no_target:
  "started_threads (fst (show_pdf env name s)) =
     (if snd (show_pdf env name s) = None then started_threads s @ [Thread None]
      else started_threads s) \<and>
   run env (Thread None) s' = returns s'"
  by (simp add: show_pdf_fields run_def)

subsection \<open>What a render displays\<close>

lemma images_of_append [simp]: "images_of (t @ u) = images_of t @ images_of u"
  by (induction t rule: images_of.induct) simp_all

lemma images_of_add_pages: "images_of (add_pages i imgs t) = images_of t @ imgs"
  by (induction i imgs t rule: add_pages.induct) simp_all

lemma and_then_raised: "snd r \<noteq> None \<Longrightarrow> and_then r f = r"
  by (cases r) (auto simp: and_then_def)

lemma and_then_returned: "snd r = None \<Longrightarrow> and_then r f = f (fst r)"
  by (cases r) (auto simp: and_then_def)

lemma remove_all_display [simp]:
  "pdf_frame (remove_all s) = map_option (\<lambda>f. f\<lparr>destroyed := True\<rparr>) (pdf_frame s)"
  "\<not> label_packed (remove_all s)"
  "\<not> buttons_placed (remove_all s)"
  by (simp_all add: remove_all_def Let_def split: option.split)

lemma start_display [simp]:
  "label_packed (start t s) = label_packed s"
  "buttons_placed (start t s) = buttons_placed s"
  by (simp_all add: start_def)

lemma position_buttons_label [simp]:
  "label_packed (position_buttons s) = label_packed s"
  by (simp add: position_buttons_def)

lemma new_pdf_frame_label [simp]:
  "label_packed (fst (new_pdf_frame env s)) = label_packed s"
  by (simp add: new_pdf_frame_def split: option.split)

lemma render_pdf_label [simp]:
  "label_packed (fst (render_pdf env s)) = label_packed s"
  by (simp add: render_pdf_def fst_and_then split: option.split)

lemma new_pdf_frame_raised:
  "snd (new_pdf_frame env s) \<noteq> None \<Longrightarrow> fst (new_pdf_frame env s) = s"
  by (simp add: new_pdf_frame_def split: option.splits)

lemma new_pdf_frame_returned:
  "snd (new_pdf_frame env s) = None \<Longrightarrow>
   pdf_frame (fst (new_pdf_frame env s)) =
     Some \<lparr>frame_height = the (py_int env (py_mul env (height s) (scale_fact s))),
           frame_width = the (py_int env (py_mul env (width s) (scale_fact s))),
           destroyed = False\<rparr> \<and>
   pdf_text (fst (new_pdf_frame env s)) = [] \<and>
   buttons_placed (fst (new_pdf_frame env s)) = (pdf_active s \<or> buttons_placed s)"
  by (auto simp add: new_pdf_frame_def split: option.splits)

lemma render_pdf_raised_frame:
  assumes "snd (render_pdf env s) \<noteq> None"
  shows "pdf_frame (fst (render_pdf env s)) = pdf_frame s"
proof (cases "filename s")
  case None
  then show ?thesis by (simp add: render_pdf_def)
next
  case (Some name)
  show ?thesis
  proof (cases "fitz_open env name")
    case None
    with Some show ?thesis by (simp add: render_pdf_def)
  next
    case (Some pages)
    define r where "r = render_pages env pages (s\<lparr>img_object_list := []\<rparr>)"
    have unfold: "render_pdf env s =
        and_then r (\<lambda>s. and_then (new_pdf_frame env s)
          (\<lambda>s. returns (s\<lparr>pdf_text := add_pages 0 (img_object_list s) (pdf_text s)\<rparr>)))"
      using Some \<open>filename s = Some name\<close> by (simp add: render_pdf_def r_def)
    have r: "pdf_frame (fst r) = pdf_frame s" by (simp add: r_def)
    show ?thesis
    proof (cases "snd r = None")
      case False
      then have "render_pdf env s = r"
        unfolding unfold by (rule and_then_raised)
      with r show ?thesis by simp
    next
      case True
      with assms have "snd (new_pdf_frame env (fst r)) \<noteq> None"
        by (simp add: unfold snd_and_then split: if_splits)
      with True r new_pdf_frame_raised [of env "fst r"] show ?thesis
        by (simp add: unfold fst_and_then)
    qed
  qed
qed

lemma render_pdf_returned_display:
  assumes "snd (render_pdf env s) = None"
  shows "pdf_frame (fst (render_pdf env s)) =
           Some \<lparr>frame_height = the (py_int env (py_mul env (height s) (scale_fact s))),
                 frame_width = the (py_int env (py_mul env (width s) (scale_fact s))),
                 destroyed = False\<rparr>"
    and "pdf_text (fst (render_pdf env s)) = add_pages 0 (img_object_list (fst (render_pdf env s))) []"
    and "buttons_placed (fst (render_pdf env s)) = (pdf_active s \<or> buttons_placed s)"
proof -
  from assms obtain name where name: "filename s = Some name"
    by (cases "filename s") (simp_all add: render_pdf_def)
  from assms name obtain pages where pages: "fitz_open env name = Some pages"
    by (cases "fitz_open env name") (simp_all add: render_pdf_def)
  define r where "r = render_pages env pages (s\<lparr>img_object_list := []\<rparr>)"
  have unfold: "render_pdf env s =
      and_then r (\<lambda>s. and_then (new_pdf_frame env s)
        (\<lambda>s. returns (s\<lparr>pdf_text := add_pages 0 (img_object_list s) (pdf_text s)\<rparr>)))"
    using name pages by (simp add: render_pdf_def r_def)
  have r: "snd r = None" and f: "snd (new_pdf_frame env (fst r)) = None"
    using assms by (simp_all add: unfold snd_and_then split: if_splits)
  have keep: "height (fst r) = height s" "width (fst r) = width s"
    "scale_fact (fst r) = scale_fact s" "pdf_active (fst r) = pdf_active s"
    "buttons_placed (fst r) = buttons_placed s"
    by (simp_all add: r_def)
  from new_pdf_frame_returned [OF f] keep
  have n: "pdf_frame (fst (new_pdf_frame env (fst r))) =
         Some \<lparr>frame_height = the (py_int env (py_mul env (height s) (scale_fact s))),
               frame_width = the (py_int env (py_mul env (width s) (scale_fact s))),
               destroyed = False\<rparr>"
    "pdf_text (fst (new_pdf_frame env (fst r))) = []"
    "buttons_placed (fst (new_pdf_frame env (fst r))) = (pdf_active s \<or> buttons_placed s)"
    by simp_all
  show "pdf_frame (fst (render_pdf env s)) =
           Some \<lparr>frame_height = the (py_int env (py_mul env (height s) (scale_fact s))),
                 frame_width = the (py_int env (py_mul env (width s) (scale_fact s))),
                 destroyed = False\<rparr>"
    using r f n by (simp add: unfold fst_and_then)
  show "pdf_text (fst (render_pdf env s)) = add_pages 0 (img_object_list (fst (render_pdf env s))) []"
    using r f n by (simp add: unfold fst_and_then)
  show "buttons_placed (fst (render_pdf env s)) = (pdf_active s \<or> buttons_placed s)"
    using r f n by (simp add: unfold fst_and_then)
qed

lemma rerender_frame:
  "old_frame_gone (render_pdf env ((remove_all s)\<lparr>pdf_active := True\<rparr>))"
proof (cases "snd (render_pdf env ((remove_all s)\<lparr>pdf_active := True\<rparr>)) = None")
  case True
  from render_pdf_returned_display(1) [OF this] True show ?thesis
    by (simp add: old_frame_gone_def)
next
  case False
  from render_pdf_raised_frame [OF this] False show ?thesis
    by (cases "pdf_frame s") (simp_all add: old_frame_gone_def)
qed

lemma rerender_rendered:
  assumes "renderable env s sc pages dpi"
  defines "out \<equiv> render_pdf env ((remove_all (s\<lparr>scale_fact := sc\<rparr>))\<lparr>pdf_active := True\<rparr>)"
  shows "snd out = None \<and> rendered env (fst out) pages dpi"
proof -
  have ok: "snd out = None"
    and data: "map image_data (img_object_list (fst out)) =
      map (\<lambda>p. the (getImageData env p dpi)) pages"
    using rerender_ok [OF assms(1)] by (simp_all add: out_def)
  from render_pdf_returned_display [OF ok [unfolded out_def]]
  have "pdf_frame (fst out) =
      Some \<lparr>frame_height = the (py_int env (py_mul env (height (fst out)) (scale_fact (fst out)))),
            frame_width = the (py_int env (py_mul env (width (fst out)) (scale_fact (fst out)))),
            destroyed = False\<rparr>"
    and tx: "pdf_text (fst out) = add_pages 0 (img_object_list (fst out)) []"
    and "buttons_placed (fst out)"
    by (simp_all add: out_def)
  moreover from tx have "images_of (pdf_text (fst out)) = img_object_list (fst out)"
    by (simp add: images_of_add_pages)
  moreover have "pdf_active (fst out)" "\<not> label_packed (fst out)"
    by (simp_all add: out_def)
  ultimately show ?thesis using ok data by (simp add: rendered_def)
qed

lemma rendered_start: "rendered env (start t r) pages dpi = rendered env r pages dpi"
  by (simp add: rendered_def)

lemma then_start:
  "old_frame_gone (and_then out (\<lambda>s. returns (start t s))) = old_frame_gone out"
  "snd (and_then out (\<lambda>s. returns (start t s))) = snd out"
  "snd out = None \<Longrightarrow>
   rendered env (fst (and_then out (\<lambda>s. returns (start t s)))) pages dpi =
     rendered env (fst out) pages dpi"
proof -
  show "old_frame_gone (and_then out (\<lambda>s. returns (start t s))) = old_frame_gone out"
  proof (cases "snd out = None")
    case True
    then show ?thesis
      by (simp add: and_then_returned old_frame_gone_def split: option.split)
  next
    case False
    then show ?thesis by (simp add: and_then_raised)
  qed
  show "snd (and_then out (\<lambda>s. returns (start t s))) = snd out"
  proof (cases "snd out = None")
    case True
    then show ?thesis by (simp add: and_then_returned)
  next
    case False
    then show ?thesis by (simp add: and_then_raised)
  qed
  show "rendered env (fst (and_then out (\<lambda>s. returns (start t s)))) pages dpi =
     rendered env (fst out) pages dpi" if "snd out = None"
    using that by (simp add: and_then_returned rendered_start)
qed

text \<open>
  Claim C3. \<open>zoom_in\<close> leaves the scale factor \<^verbatim>\<open>s * 1.1\<close> and \<open>zoom_out\<close> leaves it
  \<^verbatim>\<open>s / 1.1\<close>, for every scale factor \<open>s\<close> before. Both render the file again, in full:
  the images afterwards are exactly those created during the call; no frame of the
  render before is left on display; and when the display is renderable at the new scale
  factor the call returns normally and the display is the render at the new scale factor:
  every page at the new dpi, in a new frame of the new size, with the text box holding
  these images.
\<close>

theorem zoom_scales_by_fixed_ratio_and_rerenders:
  "scale_fact (fst (zoom_in env s)) =
     py_mul env (scale_fact s) (PyFloat (float_of_literal env (11 / 10))) \<and>
   scale_fact (fst (zoom_out env s)) =
     py_truediv env (scale_fact s) (float_of_literal env (11 / 10)) \<and>
   map image_id (img_object_list (fst (zoom_in env s))) =
     [images_created s ..< images_created (fst (zoom_in env s))] \<and>
   map image_id (img_object_list (fst (zoom_out env s))) =
     [images_created s ..< images_created (fst (zoom_out env s))] \<and>
   old_frame_gone (zoom_in env s) \<and>
   old_frame_gone (zoom_out env s) \<and>
   (renderable env s (scale_fact (fst (zoom_in env s))) pages dpi \<longrightarrow>
      snd (zoom_in env s) = None \<and> rendered env (fst (zoom_in env s)) pages dpi) \<and>
   (renderable env s (scale_fact (fst (zoom_out env s))) pages' dpi' \<longrightarrow>
      snd (zoom_out env s) = None \<and> rendered env (fst (zoom_out env s)) pages' dpi')"
proof -
  have "old_frame_gone (zoom_in env s)" "old_frame_gone (zoom_out env s)"
    by (simp_all add: zoom_in_def zoom_out_def then_start rerender_frame)
  moreover have "snd (zoom_in env s) = None \<and> rendered env (fst (zoom_in env s)) pages dpi"
    if "renderable env s (scale_fact (fst (zoom_in env s))) pages dpi"
    using rerender_rendered [OF that [unfolded zoom_fields]]
    by (simp add: zoom_in_def then_start)
  moreover have "snd (zoom_out env s) = None \<and> rendered env (fst (zoom_out env s)) pages' dpi'"
    if "renderable env s (scale_fact (fst (zoom_out env s))) pages' dpi'"
    using rerender_rendered [OF that [unfolded zoom_fields]]
    by (simp add: zoom_out_def then_start)
  ultimately show ?thesis
    by (simp add: zoom_fields zoom_ids)
qed

text \<open>
  Claim C8. \<open>show_pdf\<close> leaves the scale factor 1 and its outcome does not depend on the
  scale factor before; no frame of a file displayed before is left on display; and when
  the file is renderable at scale factor 1 the call returns normally and the display is
  the render at scale factor 1: every page at the dpi of scale factor 1, in a new frame
  of the unscaled size, with the text box holding these images.
\<close>

theorem show_pdf_resets_scale:
  "scale_fact (fst (show_pdf env name s)) = PyInt 1 \<and>
   show_pdf env name (s\<lparr>scale_fact := x\<rparr>) = show_pdf env name s \<and>
   old_frame_gone (show_pdf env name s) \<and>
   (renderable env (s\<lparr>filename := Some name\<rparr>) (PyInt 1) pages dpi \<longrightarrow>
      snd (show_pdf env name s) = None \<and> rendered env (fst (show_pdf env name s)) pages dpi)"
proof -
  have "show_pdf env name (s\<lparr>scale_fact := x\<rparr>) = show_pdf env name s"
    by (simp add: show_pdf_def)
  moreover have "old_frame_gone (show_pdf env name s)"
    by (simp add: show_pdf_def then_start rerender_frame)
  moreover have "snd (show_pdf env name s) = None \<and>
      rendered env (fst (show_pdf env name s)) pages dpi"
    if "renderable env (s\<lparr>filename := Some name\<rparr>) (PyInt 1) pages dpi"
  proof -
    have eq: "s\<lparr>scale_fact := PyInt 1, filename := Some name\<rparr> =
        s\<lparr>filename := Some name\<rparr>\<lparr>scale_fact := PyInt 1\<rparr>"
      by simp
    show ?thesis
      using rerender_rendered [OF that]
      by (simp add: show_pdf_def then_start eq del: pdf_display.update_convs)
  qed
  ultimately show ?thesis
    by (simp add: show_pdf_fields)
qed

subsection \<open>The model on the example environment\<close>

lemma show_pdf_ids:
  "map image_id (img_object_list (fst (show_pdf env name s))) =
     [images_created s ..< images_created (fst (show_pdf env name s))]"
  using rerender_ids [of env "s\<lparr>scale_fact := PyInt 1, filename := Some name\<rparr>"]
  by (simp add: show_pdf_def fst_and_then)

lemma new_display_fields:
  "zoom_fact new_display = PyInt 1" "width new_display = PyInt 75"
  "height new_display = PyInt 600" "started_threads new_display = []"
  "images_created new_display = 0" "img_object_list new_display = []"
  by (simp_all add: new_display_def PdfDisplay_init_def)

lemma loaded_display_fields:
  "scale_fact loaded_display = PyInt 1" "filename loaded_display = Some ''a.pdf''"
  "zoom_fact loaded_display = PyInt 1" "width loaded_display = PyInt 75"
  "height loaded_display = PyInt 600"
  by (simp_all add: loaded_display_def show_pdf_fields new_display_fields)

lemma zoomed_display_fields:
  "scale_fact zoomed_display = PyFloat (11 / 10)" "filename zoomed_display = Some ''a.pdf''"
  "zoom_fact zoomed_display = PyInt 1" "width zoomed_display = PyInt 75"
  "height zoomed_display = PyInt 600"
  by (simp_all add: zoomed_display_def zoom_fields loaded_display_fields example_env_def)

lemma example_floors:
  "\<lfloor>396 / 5 :: rat\<rfloor> = 79" "\<lfloor>720 / 11 :: rat\<rfloor> = 65"
  by (rule floor_unique; simp)+

lemma example_renderable:
  "renderable example_env (new_display\<lparr>filename := Some ''a.pdf''\<rparr>) (PyInt 1) [0, 1] 72"
  "renderable example_env loaded_display (PyInt 1) [0, 1] 72"
  "renderable example_env loaded_display (PyFloat (11 / 10)) [0, 1] 79"
  "renderable example_env loaded_display (PyFloat (10 / 11)) [0, 1] 65"
  "renderable example_env (zoomed_display\<lparr>filename := Some ''a.pdf''\<rparr>) (PyInt 1) [0, 1] 72"
  by (simp_all add: renderable_def new_display_fields loaded_display_fields
      zoomed_display_fields example_env_def example_floors)

lemma example_image_data:
  "the (getImageData example_env 0 72) = ''page 1 at 72 dpi''"
  "the (getImageData example_env (Suc 0) 72) = ''page 2 at 72 dpi''"
  "the (getImageData example_env 0 79) = ''page 1 at 79 dpi''"
  "the (getImageData example_env (Suc 0) 79) = ''page 2 at 79 dpi''"
  "the (getImageData example_env 0 65) = ''page 1 at 65 dpi''"
  "the (getImageData example_env (Suc 0) 65) = ''page 2 at 65 dpi''"
  by (simp_all add: example_env_def)

lemma example_scales:
  "float_mul example_env (float_of_int example_env 1) (float_of_literal example_env (11 / 10)) =
     11 / 10"
  "py_truediv example_env (PyInt 1) (float_of_literal example_env (11 / 10)) =
     PyFloat (10 / 11)"
  by (simp_all add: example_env_def py_truediv_def)

text \<open>
  Claim C7 fails on the code: \<^verbatim>\<open>show_pdf\<close> on a new display and a file of two pages.
  When the call returns to its caller both pages are rendered, by the caller; the one
  thread that was started has the target \<^verbatim>\<open>None\<close>, and running it changes nothing.
\<close>

theorem show_pdf_renders_before_thread_starts:
  "snd (show_pdf example_env ''a.pdf'' new_display) = None \<and>
   map image_data (img_object_list (fst (show_pdf example_env ''a.pdf'' new_display))) =
     [''page 1 at 72 dpi'', ''page 2 at 72 dpi''] \<and>
   started_threads (fst (show_pdf example_env ''a.pdf'' new_display)) = [Thread None] \<and>
   run example_env (Thread None) (fst (show_pdf example_env ''a.pdf'' new_display)) =
     returns (fst (show_pdf example_env ''a.pdf'' new_display))"
  using show_pdf_ok [OF example_renderable(1)]
  by (simp add: show_pdf_fields new_display_fields example_image_data run_def)

lemma loaded_display_images:
  "map image_data (img_object_list loaded_display) =
     [''page 1 at 72 dpi'', ''page 2 at 72 dpi'']"
  "ids_fresh loaded_display"
proof -
  show "map image_data (img_object_list loaded_display) =
     [''page 1 at 72 dpi'', ''page 2 at 72 dpi'']"
    using show_pdf_ok [OF example_renderable(1)]
    by (simp add: loaded_display_def example_image_data)
  have "map image_id (img_object_list loaded_display) =
      [0 ..< images_created loaded_display]"
    using show_pdf_ids [of example_env "''a.pdf''" new_display]
    by (simp add: loaded_display_def new_display_fields)
  then have "set (map image_id (img_object_list loaded_display)) =
      {0 ..< images_created loaded_display}"
    by simp
  then show "ids_fresh loaded_display"
    by (auto simp: ids_fresh_def)
qed

text \<open>
  The theorem at a display that already shows the two pages of \<^verbatim>\<open>a.pdf\<close>: a second
  render leaves two images, neither of them one of the two prior ones.
\<close>

theorem render_pdf_discards_prior_images_witness:
  "ids_fresh loaded_display \<and>
   snd (render_pdf example_env loaded_display) = None \<and>
   map image_data (img_object_list loaded_display) =
     [''page 1 at 72 dpi'', ''page 2 at 72 dpi''] \<and>
   set (img_object_list (fst (render_pdf example_env loaded_display))) \<inter>
     set (img_object_list loaded_display) = {} \<and>
   length (img_object_list (fst (render_pdf example_env loaded_display))) = 2"
proof -
  have ok: "snd (render_pdf example_env loaded_display) = None"
    using render_pdf_ok(1) [of example_env loaded_display "[0, 1]" 72] example_renderable(2)
    by (simp add: loaded_display_fields)
  have "fitz_open example_env ''a.pdf'' = Some [0, 1]"
    by (simp add: example_env_def)
  with render_pdf_discards_prior_images [of example_env "[]" loaded_display] ok
    loaded_display_images
  show ?thesis by (auto simp: loaded_display_fields)
qed

text \<open>Two image objects are determined by their identities and their data.\<close>

lemma two_images:
  assumes "map image_id xs = [c ..< n]" and "map image_data xs = [d, e]"
  shows "xs = [\<lparr>image_id = c, image_data = d\<rparr>, \<lparr>image_id = Suc c, image_data = e\<rparr>]"
    and "n = c + 2"
proof -
  from assms(2) have len: "length xs = 2"
    by (metis length_map length_Cons list.size(3) numeral_2_eq_2)
  then obtain x y where xs: "xs = [x, y]" using length2 by blast
  from assms(1) len have "n - c = 2" by (metis length_map length_upt)
  then show n: "n = c + 2" by simp
  then have "[c ..< n] = [c, Suc c]" by (simp add: upt_conv_Cons)
  with assms xs have "image_id x = c" "image_id y = Suc c" "image_data x = d" "image_data y = e"
    by simp_all
  then have "x = \<lparr>image_id = c, image_data = d\<rparr>" "y = \<lparr>image_id = Suc c, image_data = e\<rparr>"
    by simp_all
  with xs show "xs = [\<lparr>image_id = c, image_data = d\<rparr>, \<lparr>image_id = Suc c, image_data = e\<rparr>]"
    by simp
qed

lemma zoom_out_size:
  "width (fst (zoom_out env s)) = width s" "height (fst (zoom_out env s)) = height s"
  by (simp_all add: zoom_out_def fst_and_then)

lemma loaded_display_created: "images_created loaded_display = 2"
proof -
  have "map image_id (img_object_list loaded_display) = [0 ..< images_created loaded_display]"
    using show_pdf_ids [of example_env "''a.pdf''" new_display]
    by (simp add: loaded_display_def new_display_fields)
  from two_images(2) [OF this loaded_display_images(1)] show ?thesis by simp
qed

lemma example_sizes:
  "\<lfloor>165 / 2 :: rat\<rfloor> = 82" "\<lfloor>6000 / 11 :: rat\<rfloor> = 545" "\<lfloor>750 / 11 :: rat\<rfloor> = 68"
  by (rule floor_unique; simp)+

lemma zoomed_display_shown:
  "images_created zoomed_display = 4"
  "pdf_frame zoomed_display = Some \<lparr>frame_height = 660, frame_width = 82, destroyed = False\<rparr>"
proof -
  have sc: "py_mul example_env (scale_fact loaded_display)
      (PyFloat (float_of_literal example_env (11 / 10))) = PyFloat (11 / 10)"
    by (simp add: loaded_display_fields example_scales)
  have r: "renderable example_env loaded_display
      (py_mul example_env (scale_fact loaded_display)
        (PyFloat (float_of_literal example_env (11 / 10)))) [0, 1] 79"
    unfolding sc by (rule example_renderable(3))
  from zoom_in_ok [OF r]
  have data: "map image_data (img_object_list zoomed_display) =
      [''page 1 at 79 dpi'', ''page 2 at 79 dpi'']"
    by (simp add: zoomed_display_def example_image_data)
  have ids: "map image_id (img_object_list zoomed_display) = [2 ..< images_created zoomed_display]"
    using zoom_ids(1) [of example_env loaded_display]
    by (simp add: zoomed_display_def loaded_display_created)
  from two_images(2) [OF ids data] show "images_created zoomed_display = 4" by simp
  from rerender_rendered [OF r]
  have "rendered example_env zoomed_display [0, 1] 79"
    by (simp add: zoomed_display_def zoom_in_def then_start)
  then show "pdf_frame zoomed_display =
      Some \<lparr>frame_height = 660, frame_width = 82, destroyed = False\<rparr>"
    by (simp add: rendered_def zoomed_display_fields example_env_def example_sizes)
qed

text \<open>
  The theorem at the loaded display, in exact arithmetic: the scale factor goes from 1 to
  11/10 and to 10/11; the two pages are rendered anew at 79 and at 65 dpi, into a frame
  of 82 by 660 and of 68 by 545, and the text box holds the two new images with two
  newlines between them.
\<close>

theorem zoom_scales_by_fixed_ratio_and_rerenders_witness:
  "renderable example_env loaded_display (PyFloat (11 / 10)) [0, 1] 79 \<and>
   renderable example_env loaded_display (PyFloat (10 / 11)) [0, 1] 65 \<and>
   scale_fact loaded_display = PyInt 1 \<and>
   scale_fact (fst (zoom_in example_env loaded_display)) = PyFloat (11 / 10) \<and>
   scale_fact (fst (zoom_out example_env loaded_display)) = PyFloat (10 / 11) \<and>
   snd (zoom_in example_env loaded_display) = None \<and>
   img_object_list (fst (zoom_in example_env loaded_display)) =
     [\<lparr>image_id = 2, image_data = ''page 1 at 79 dpi''\<rparr>,
      \<lparr>image_id = 3, image_data = ''page 2 at 79 dpi''\<rparr>] \<and>
   pdf_frame (fst (zoom_in example_env loaded_display)) =
     Some \<lparr>frame_height = 660, frame_width = 82, destroyed = False\<rparr> \<and>
   pdf_text (fst (zoom_in example_env loaded_display)) =
     [Image \<lparr>image_id = 2, image_data = ''page 1 at 79 dpi''\<rparr>,
      Text [CHR 0x0A, CHR 0x0A],
      Image \<lparr>image_id = 3, image_data = ''page 2 at 79 dpi''\<rparr>] \<and>
   snd (zoom_out example_env loaded_display) = None \<and>
   img_object_list (fst (zoom_out example_env loaded_display)) =
     [\<lparr>image_id = 2, image_data = ''page 1 at 65 dpi''\<rparr>,
      \<lparr>image_id = 3, image_data = ''page 2 at 65 dpi''\<rparr>] \<and>
   pdf_frame (fst (zoom_out example_env loaded_display)) =
     Some \<lparr>frame_height = 545, frame_width = 68, destroyed = False\<rparr> \<and>
   pdf_text (fst (zoom_out example_env loaded_display)) =
     [Image \<lparr>image_id = 2, image_data = ''page 1 at 65 dpi''\<rparr>,
      Text [CHR 0x0A, CHR 0x0A],
      Image \<lparr>image_id = 3, image_data = ''page 2 at 65 dpi''\<rparr>]"
proof -
  let ?i = "fst (zoom_in example_env loaded_display)"
  let ?o = "fst (zoom_out example_env loaded_display)"
  have sc: "scale_fact ?i = PyFloat (11 / 10)" "scale_fact ?o = PyFloat (10 / 11)"
    by (simp_all add: zoom_fields loaded_display_fields example_scales)
  note inst = zoom_scales_by_fixed_ratio_and_rerenders
    [of example_env loaded_display "[0, 1]" 79 "[0, 1]" 65]
  from inst sc example_renderable(3,4)
  have ok: "snd (zoom_in example_env loaded_display) = None"
    "snd (zoom_out example_env loaded_display) = None"
    and ri: "rendered example_env ?i [0, 1] 79"
    and ro: "rendered example_env ?o [0, 1] 65"
    by simp_all
  from inst have ids:
    "map image_id (img_object_list ?i) = [2 ..< images_created ?i]"
    "map image_id (img_object_list ?o) = [2 ..< images_created ?o]"
    by (simp_all add: loaded_display_created)
  from ri ro have data:
    "map image_data (img_object_list ?i) = [''page 1 at 79 dpi'', ''page 2 at 79 dpi'']"
    "map image_data (img_object_list ?o) = [''page 1 at 65 dpi'', ''page 2 at 65 dpi'']"
    by (simp_all add: rendered_def example_image_data)
  have imgs:
    "img_object_list ?i = [\<lparr>image_id = 2, image_data = ''page 1 at 79 dpi''\<rparr>,
        \<lparr>image_id = 3, image_data = ''page 2 at 79 dpi''\<rparr>]"
    "img_object_list ?o = [\<lparr>image_id = 2, image_data = ''page 1 at 65 dpi''\<rparr>,
        \<lparr>image_id = 3, image_data = ''page 2 at 65 dpi''\<rparr>]"
    using two_images(1) [OF ids(1) data(1)] two_images(1) [OF ids(2) data(2)]
    by (simp_all add: eval_nat_numeral)
  have size: "height ?i = PyInt 600" "width ?i = PyInt 75"
    "height ?o = PyInt 600" "width ?o = PyInt 75"
    by (simp_all add: zoom_fields zoom_out_size loaded_display_fields)
  from ri sc(1) size imgs(1)
  have fi: "pdf_frame ?i = Some \<lparr>frame_height = 660, frame_width = 82, destroyed = False\<rparr>"
    and t_in: "pdf_text ?i = [Image \<lparr>image_id = 2, image_data = ''page 1 at 79 dpi''\<rparr>,
      Text [CHR 0x0A, CHR 0x0A],
      Image \<lparr>image_id = 3, image_data = ''page 2 at 79 dpi''\<rparr>]"
    by (simp_all add: rendered_def example_env_def example_sizes)
  from ro sc(2) size imgs(2)
  have fo: "pdf_frame ?o = Some \<lparr>frame_height = 545, frame_width = 68, destroyed = False\<rparr>"
    and t_out: "pdf_text ?o = [Image \<lparr>image_id = 2, image_data = ''page 1 at 65 dpi''\<rparr>,
      Text [CHR 0x0A, CHR 0x0A],
      Image \<lparr>image_id = 3, image_data = ''page 2 at 65 dpi''\<rparr>]"
    by (simp_all add: rendered_def example_env_def example_sizes)
  from example_renderable(3,4) sc ok imgs fi t_in fo t_out show ?thesis
    by (simp add: loaded_display_fields)
qed

text \<open>
  The theorem at a display zoomed in once, which shows a frame of 82 by 660: the scale
  factor goes from 11/10 back to 1, the two pages are rendered anew at 72 dpi into a
  frame of 75 by 600, and the text box holds the two new images.
\<close>

theorem show_pdf_resets_scale_witness:
  "renderable example_env (zoomed_display\<lparr>filename := Some ''a.pdf''\<rparr>) (PyInt 1) [0, 1] 72 \<and>
   scale_fact zoomed_display = PyFloat (11 / 10) \<and>
   pdf_frame zoomed_display = Some \<lparr>frame_height = 660, frame_width = 82, destroyed = False\<rparr> \<and>
   scale_fact (fst (show_pdf example_env ''a.pdf'' zoomed_display)) = PyInt 1 \<and>
   snd (show_pdf example_env ''a.pdf'' zoomed_display) = None \<and>
   img_object_list (fst (show_pdf example_env ''a.pdf'' zoomed_display)) =
     [\<lparr>image_id = 4, image_data = ''page 1 at 72 dpi''\<rparr>,
      \<lparr>image_id = 5, image_data = ''page 2 at 72 dpi''\<rparr>] \<and>
   pdf_frame (fst (show_pdf example_env ''a.pdf'' zoomed_display)) =
     Some \<lparr>frame_height = 600, frame_width = 75, destroyed = False\<rparr> \<and>
   pdf_text (fst (show_pdf example_env ''a.pdf'' zoomed_display)) =
     [Image \<lparr>image_id = 4, image_data = ''page 1 at 72 dpi''\<rparr>,
      Text [CHR 0x0A, CHR 0x0A],
      Image \<lparr>image_id = 5, image_data = ''page 2 at 72 dpi''\<rparr>]"
proof -
  let ?r = "fst (show_pdf example_env ''a.pdf'' zoomed_display)"
  note inst = show_pdf_resets_scale [of example_env "''a.pdf''" zoomed_display _ "[0, 1]" 72]
  from inst example_renderable(5)
  have sc: "scale_fact ?r = PyInt 1"
    and ok: "snd (show_pdf example_env ''a.pdf'' zoomed_display) = None"
    and r: "rendered example_env ?r [0, 1] 72"
    by simp_all
  have ids: "map image_id (img_object_list ?r) = [4 ..< images_created ?r]"
    using show_pdf_ids [of example_env "''a.pdf''" zoomed_display]
    by (simp add: zoomed_display_shown)
  from r have data:
    "map image_data (img_object_list ?r) = [''page 1 at 72 dpi'', ''page 2 at 72 dpi'']"
    by (simp add: rendered_def example_image_data)
  have imgs: "img_object_list ?r = [\<lparr>image_id = 4, image_data = ''page 1 at 72 dpi''\<rparr>,
        \<lparr>image_id = 5, image_data = ''page 2 at 72 dpi''\<rparr>]"
    using two_images(1) [OF ids data] by (simp add: eval_nat_numeral)
  have size: "height ?r = PyInt 600" "width ?r = PyInt 75"
    by (simp_all add: show_pdf_fields zoomed_display_fields)
  from r sc size imgs
  have f: "pdf_frame ?r = Some \<lparr>frame_height = 600, frame_width = 75, destroyed = False\<rparr>"
    and t: "pdf_text ?r = [Image \<lparr>image_id = 4, image_data = ''page 1 at 72 dpi''\<rparr>,
      Text [CHR 0x0A, CHR 0x0A],
      Image \<lparr>image_id = 5, image_data = ''page 2 at 72 dpi''\<rparr>]"
    by (simp_all add: rendered_def)
  from example_renderable(5) sc ok imgs f t show ?thesis
    by (simp add: zoomed_display_fields zoomed_display_shown)
qed

end
